theory Spec2Isabelle
  imports Complex_Main
begin

section \<open>Python values, errors and strings\<close>

text \<open>
  The two protocols are Python scripts driving an Opentrons Flex. Volumes are Python
  floats read from decimal text; every finite float is a rational number, so volumes
  are modelled as \<^typ>\<open>rat\<close> and arithmetic on them is exact (no rounding, no
  infinities, no NaN). Counts and indices are natural numbers: the parameters that feed
  them are declared with \<open>minimum=1\<close>.

  An exception is a value of type \<open>error\<close> carrying the text that \<open>str(e)\<close> yields.
\<close>

datatype error =
    IndexError string
  | ValueError string
  | KeyError string
  | ZeroDivisionError string
  | RuntimeError string

fun str_of_error :: "error \<Rightarrow> string" where
  "str_of_error (IndexError s) = s"
| "str_of_error (ValueError s) = s"
| "str_of_error (KeyError s) = s"
| "str_of_error (ZeroDivisionError s) = s"
| "str_of_error (RuntimeError s) = s"

text \<open>Sequencing of steps that may raise: the first exception ends the computation.\<close>

definition bindE :: "error + 'a \<Rightarrow> ('a \<Rightarrow> error + 'b) \<Rightarrow> error + 'b" where
  "bindE m f = (case m of Inl e \<Rightarrow> Inl e | Inr x \<Rightarrow> f x)"

definition list_index_out_of_range :: error where
  "list_index_out_of_range = IndexError ''list index out of range''"

text \<open>\<open>xs[i]\<close> for a non-negative index.\<close>

definition getitem :: "'a list \<Rightarrow> nat \<Rightarrow> error + 'a" where
  "getitem xs i = (if i < length xs then Inr (xs ! i) else Inl list_index_out_of_range)"

text \<open>\<open>xs[-1]\<close>.\<close>

definition getlast :: "'a list \<Rightarrow> error + 'a" where
  "getlast xs = (if xs = [] then Inl list_index_out_of_range else Inr (last xs))"

text \<open>
  \<open>str.strip()\<close> on byte strings: the ASCII white space characters are removed from
  both ends.
\<close>

definition is_space :: "char \<Rightarrow> bool" where
  "is_space c = (c \<in> set [CHR 0x09, CHR 0x0A, CHR 0x0B, CHR 0x0C, CHR 0x0D,
                           CHR 0x1C, CHR 0x1D, CHR 0x1E, CHR 0x1F, CHR 0x20])"

definition strip :: "string \<Rightarrow> string" where
  "strip s = rev (dropWhile is_space (rev (dropWhile is_space s)))"

text \<open>Removing every byte order mark from a cell (U+FEFF, three bytes in UTF-8).\<close>

fun remove_bom :: "string \<Rightarrow> string" where
  "remove_bom (a # b # c # cs) =
     (if a = CHR 0xEF \<and> b = CHR 0xBB \<and> c = CHR 0xBF then remove_bom cs
      else a # remove_bom (b # c # cs))"
| "remove_bom cs = cs"

text \<open>Decimal rendering of a number inside an f-string, as in \<open>f"A{i + 1}"\<close>.\<close>

fun show_nat :: "nat \<Rightarrow> string" where
  "show_nat n =
     (if n < 10 then [''0123456789'' ! n]
      else show_nat (n div 10) @ [''0123456789'' ! (n mod 10)])"

declare show_nat.simps [simp del]

text \<open>
  A reader of plain decimal literals (\<open>12\<close>, \<open>0.4\<close>, \<open>-3.5\<close>), used wherever a concrete
  table is evaluated. The parser itself takes the text-to-float conversion as a parameter
  \<open>float_of\<close>, with \<open>None\<close> for the strings on which \<open>float()\<close> raises ValueError.
\<close>

definition digit_val :: "char \<Rightarrow> nat option" where
  "digit_val c = map_of (zip ''0123456789'' [0 ..< 10]) c"

fun digits_from :: "nat \<Rightarrow> string \<Rightarrow> nat option" where
  "digits_from acc [] = Some acc"
| "digits_from acc (c # cs) =
     (case digit_val c of None \<Rightarrow> None | Some d \<Rightarrow> digits_from (10 * acc + d) cs)"

definition nat_of_digits :: "string \<Rightarrow> nat option" where
  "nat_of_digits s = (if s = [] then None else digits_from 0 s)"

definition unsigned_decimal :: "string \<Rightarrow> rat option" where
  "unsigned_decimal s =
     (let ip = takeWhile (\<lambda>c. c \<noteq> CHR ''.'') s;
          rest = dropWhile (\<lambda>c. c \<noteq> CHR ''.'') s
      in case nat_of_digits ip of
           None \<Rightarrow> None
         | Some n \<Rightarrow>
             (if rest = [] then Some (of_nat n)
              else case nat_of_digits (tl rest) of
                     None \<Rightarrow> None
                   | Some f \<Rightarrow> Some (of_nat n + of_nat f / 10 ^ length (tl rest))))"

definition decimal :: "string \<Rightarrow> rat option" where
  "decimal s =
     (case s of
        [] \<Rightarrow> None
      | c # cs \<Rightarrow>
          (if c = CHR ''-'' then map_option uminus (unsigned_decimal cs)
           else unsigned_decimal s))"

section \<open>DNA mix protocol: the layout table and its parser\<close>

text \<open>
  \<open>csv_data\<close> is a list of rows of text cells. Line 98 of \<open>DNAmix_final.py\<close> removes
  byte order marks and surrounding white space from every cell before anything is read.
\<close>

type_synonym table = "string list list"

definition clean_cells :: "table \<Rightarrow> table" where
  "clean_cells csv_data = map (map (\<lambda>cell. strip (remove_bom cell))) csv_data"

text \<open>One entry of \<open>all_mix_data\<close>.\<close>

record mix_data =
  volumes :: "rat list"
  scale_factors :: "rat list"
  source_wells :: "string list"
  dest_well :: string

subsection \<open>Rescaling (lines 229 to 252)\<close>

text \<open>
  \<open>mix_volumes\<close> holds every component read from the volume row, the NaCl column
  included. The divisors are sums or minima of volumes above zero, so the divisions
  cannot raise.
\<close>

definition rescale :: "rat list \<Rightarrow> rat list \<times> rat list" where
  "rescale mix_volumes =
     (let small_volumes = filter (\<lambda>v. 0 < v \<and> v < 0.8) mix_volumes;
          small_volumes_count = length (filter (\<lambda>v. 0 < v \<and> v < 0.8) mix_volumes)
      in if small_volumes \<noteq> [] then
           (let min_small = Min (set small_volumes);
                scale_factor = (if small_volumes_count > 1 then 0.8 / sum_list small_volumes
                                else 0.8 / min_small)
            in (map (\<lambda>v. v * scale_factor) mix_volumes, [scale_factor]))
         else (mix_volumes, replicate (length mix_volumes) 1))"

subsection \<open>Reading one mix (lines 205 to 264)\<close>

text \<open>
  One column \<open>i\<close> of the volume row: \<open>Inr None\<close> when the loop body ends in
  \<open>continue\<close>, \<open>Inr (Some (vol, well))\<close> when a component is appended.
\<close>

definition parse_cell ::
  "(string \<Rightarrow> rat option) \<Rightarrow> table \<Rightarrow> nat \<Rightarrow> nat \<Rightarrow> error + (rat \<times> string) option" where
  "parse_cell float_of csv_data volume_row_index i =
     bindE (getitem csv_data volume_row_index) (\<lambda>vrow.
     bindE (getitem vrow i) (\<lambda>vcell.
       let vol_str = strip vcell in
       if vol_str = [] then Inr None
       else (case float_of vol_str of
          None \<Rightarrow> Inl (ValueError (''could not convert string to float: ''
                                     @ [CHR 0x27] @ vol_str @ [CHR 0x27]))
        | Some vol \<Rightarrow>
            if vol < 0 then Inr None
            else bindE (getitem csv_data (volume_row_index + 1)) (\<lambda>srow.
                 bindE (getitem srow i) (\<lambda>scell.
                   Inr (Some (vol, if strip scell \<noteq> [] then strip scell
                                   else ''A'' @ show_nat (i + 1))))))))"

fun parse_cols ::
  "(string \<Rightarrow> rat option) \<Rightarrow> table \<Rightarrow> nat \<Rightarrow> nat list \<Rightarrow> error + (rat list \<times> string list)" where
  "parse_cols float_of csv_data volume_row_index [] = Inr ([], [])"
| "parse_cols float_of csv_data volume_row_index (i # is) =
     bindE (parse_cell float_of csv_data volume_row_index i) (\<lambda>r.
       case r of
         None \<Rightarrow> parse_cols float_of csv_data volume_row_index is
       | Some (vol, well) \<Rightarrow>
           bindE (parse_cols float_of csv_data volume_row_index is) (\<lambda>(vs, ws).
             Inr (vol # vs, well # ws)))"

text \<open>The components of mix \<open>mix_index\<close> before rescaling (lines 206 to 225).\<close>

definition parse_components ::
  "(string \<Rightarrow> rat option) \<Rightarrow> nat \<Rightarrow> table \<Rightarrow> nat \<Rightarrow> error + (rat list \<times> string list)" where
  "parse_components float_of max_plasmid_count csv_data mix_index =
     (let volume_row_index = 12 + mix_index * 15 in
      bindE (getitem csv_data volume_row_index) (\<lambda>vrow.
        parse_cols float_of csv_data volume_row_index
          [1 ..< min (max_plasmid_count + 1) (length vrow)]))"

text \<open>Line 257.\<close>

definition dest_well_at :: "table \<Rightarrow> nat \<Rightarrow> error + string" where
  "dest_well_at csv_data dest_row_index =
     bindE (getitem csv_data dest_row_index) (\<lambda>drow.
       if drow \<noteq> [] then Inr (strip (drow ! 0)) else Inr ''A1'')"

definition parse_mix ::
  "(string \<Rightarrow> rat option) \<Rightarrow> nat \<Rightarrow> table \<Rightarrow> nat \<Rightarrow> error + mix_data" where
  "parse_mix float_of max_plasmid_count csv_data mix_index =
     bindE (parse_components float_of max_plasmid_count csv_data mix_index)
       (\<lambda>(mix_volumes, wells).
     bindE (dest_well_at csv_data (0 + mix_index * 15)) (\<lambda>d.
       Inr \<lparr>volumes = fst (rescale mix_volumes),
            scale_factors = snd (rescale mix_volumes),
            source_wells = wells,
            dest_well = d\<rparr>))"

text \<open>The loop over \<open>range(mix_count)\<close> inside the \<open>try\<close> block.\<close>

fun parse_mixes ::
  "(string \<Rightarrow> rat option) \<Rightarrow> nat \<Rightarrow> table \<Rightarrow> nat list \<Rightarrow> error + mix_data list" where
  "parse_mixes float_of max_plasmid_count csv_data [] = Inr []"
| "parse_mixes float_of max_plasmid_count csv_data (m # ms) =
     bindE (parse_mix float_of max_plasmid_count csv_data m) (\<lambda>md.
     bindE (parse_mixes float_of max_plasmid_count csv_data ms) (\<lambda>mds.
       Inr (md # mds)))"

text \<open>
  Line 577: \<open>sum(v / scale_factors[0] for v in volumes if v > 0)\<close>. The subscript and
  the division are evaluated once per summand, so they can only raise when there is one.
\<close>

definition total_volume :: "mix_data \<Rightarrow> error + rat" where
  "total_volume md =
     (let pos = filter (\<lambda>v. v > 0) (volumes md) in
      if pos = [] then Inr 0
      else bindE (getitem (scale_factors md) 0) (\<lambda>s.
        if s = 0 then Inl (ZeroDivisionError ''float division by zero'')
        else Inr (sum_list (map (\<lambda>v. v / s) pos))))"


section \<open>The robot: labware, locations and the command trace\<close>

text \<open>
  The hardware interface is modelled as a recorder: every command a script sends to the
  robot is appended to a trace, and pauses are recorded with their operator-facing
  message. Calls to \<open>protocol.comment\<close>, liquid definitions and flow-rate settings only
  annotate the run and leave no entry. The interface's own rejections (a volume beyond
  a tip's capacity, a failed pickup) are outside the model; subscripting a labware with a
  name that is not one of its wells raises KeyError, as the Python API does.
\<close>

datatype pipette = P50 | P1000

datatype labware =
    Tiprack50 | Tiprack50Reserve | Tiprack200 | Tiprack1000
  | PcrPlate | PlasmidPlate | ReagentPlate | CellPlate

type_synonym well = "labware \<times> string"

definition well_names :: "string \<Rightarrow> nat \<Rightarrow> string list" where
  "well_names rows cols = concat (map (\<lambda>r. map (\<lambda>c. r # show_nat c) [1 ..< cols + 1]) rows)"

text \<open>The tube racks hold 24 tubes (A1 to D6), every other labware has 96 wells.\<close>

fun wells_of :: "labware \<Rightarrow> string list" where
  "wells_of PlasmidPlate = well_names ''ABCD'' 6"
| "wells_of ReagentPlate = well_names ''ABCD'' 6"
| "wells_of lw = well_names ''ABCDEFGH'' 12"

text \<open>\<open>labware[name]\<close>.\<close>

definition well :: "labware \<Rightarrow> string \<Rightarrow> error + well" where
  "well lw name = (if name \<in> set (wells_of lw) then Inr (lw, name) else Inl (KeyError name))"

text \<open>\<open>sum(tiprack.rows(), [])\<close>: the wells row by row.\<close>

definition tips_by_row :: "labware \<Rightarrow> well list" where
  "tips_by_row lw = map (Pair lw) (wells_of lw)"

fun find_tip_index :: "well list \<Rightarrow> string \<Rightarrow> error + nat" where
  "find_tip_index [] well_name =
     Inl (ValueError (''Starting tip '' @ well_name @ '' not found in tip list.''))"
| "find_tip_index (tip # tip_list) well_name =
     (if snd tip = well_name then Inr 0
      else bindE (find_tip_index tip_list well_name) (\<lambda>i. Inr (Suc i)))"

datatype location = At well | Top well rat | Bottom well rat

datatype event =
    PickUpTip pipette well
  | DropTip pipette
  | Aspirate pipette rat location
  | Dispense pipette rat location
  | BlowOut pipette "location option"
  | MixInPlace pipette nat rat location
  | AirGap pipette rat
  | MoveLabware labware string
  | CloseLatch
  | OpenLatch
  | Delay nat
  | Pause string

text \<open>A physical action is any command other than a pause.\<close>

fun physical :: "event \<Rightarrow> bool" where
  "physical (Pause msg) = False"
| "physical e = True"

fun is_pick_up :: "event \<Rightarrow> bool" where
  "is_pick_up (PickUpTip p t) = True"
| "is_pick_up e = False"

fun is_transfer :: "event \<Rightarrow> bool" where
  "is_transfer (Aspirate p v l) = True"
| "is_transfer (Dispense p v l) = True"
| "is_transfer e = False"

text \<open>
  The state both scripts keep: the trace, the queue of 200 \<open>\<mu>\<close>L tips and its counter.
\<close>

record robot =
  events :: "event list"
  tips200_by_row :: "well list"
  counter_200 :: nat

datatype outcome = Completed | Returned | Raised error

text \<open>The parameters both scripts declare.\<close>

record common_params =
  mix_count :: nat
  starting_tip_200 :: string
  premix :: bool

text \<open>
  A step of a script works on the mutable state and either completes or raises; the
  state at the moment of the raise is kept, since the commands already sent stay sent.
\<close>

type_synonym 's step = "'s \<Rightarrow> 's \<times> error option"

definition ok :: "'s step" where
  "ok st = (st, None)"

definition raise :: "error \<Rightarrow> 's step" where
  "raise e st = (st, Some e)"

definition seq :: "'s step \<Rightarrow> 's step \<Rightarrow> 's step" where
  "seq f g st = (case f st of (st', None) \<Rightarrow> g st' | (st', Some e) \<Rightarrow> (st', Some e))"

definition need :: "error + 'a \<Rightarrow> ('a \<Rightarrow> 's step) \<Rightarrow> 's step" where
  "need m f st = (case m of Inl e \<Rightarrow> (st, Some e) | Inr x \<Rightarrow> f x st)"

fun steps :: "'s step list \<Rightarrow> 's step" where
  "steps [] = ok"
| "steps (f # fs) = seq f (steps fs)"

fun foreach :: "('a \<Rightarrow> 's step) \<Rightarrow> 'a list \<Rightarrow> 's step" where
  "foreach f [] = ok"
| "foreach f (x # xs) = seq (f x) (foreach f xs)"

definition emit :: "event \<Rightarrow> ('a robot_scheme) step" where
  "emit e st = (st\<lparr>events := events st @ [e]\<rparr>, None)"

section \<open>DNA mix protocol: liquids, vessels, NaCl and transfers\<close>

subsection \<open>Liquid registry (lines 144 to 199)\<close>

text \<open>
  Python dictionaries keep insertion order; where that order is observable they are
  association lists. \<open>upsert d k v0 f\<close> is \<open>d[k] = f(d.get(k, v0))\<close> with a new key
  appended at the end.
\<close>

fun upsert :: "('k \<times> 'v) list \<Rightarrow> 'k \<Rightarrow> 'v \<Rightarrow> ('v \<Rightarrow> 'v) \<Rightarrow> ('k \<times> 'v) list" where
  "upsert [] k v0 f = [(k, f v0)]"
| "upsert ((k', v) # d) k v0 f =
     (if k' = k then (k', f v) # d else (k', v) # upsert d k v0 f)"

text \<open>\<open>list(dict.fromkeys(xs))\<close>: duplicates removed, first occurrences kept in order.\<close>

fun fromkeys :: "'a list \<Rightarrow> 'a list" where
  "fromkeys [] = []"
| "fromkeys (x # xs) = x # fromkeys (filter (\<lambda>y. y \<noteq> x) xs)"

definition register_names ::
  "table \<Rightarrow> nat \<Rightarrow> (string \<times> string list) list \<Rightarrow> (string \<times> string list) list" where
  "register_names csv_data name_row all_plasmid_wells =
     (let well_row = name_row + 13 in
      if name_row \<ge> length csv_data \<or> well_row \<ge> length csv_data then all_plasmid_wells
      else
        (let plasmid_names = map strip (csv_data ! name_row) in
         fold (\<lambda>i acc.
                let name = plasmid_names ! i in
                if name = [] then acc
                else
                  (let w = (if i < length (csv_data ! well_row)
                            then strip (csv_data ! well_row ! i) else []) in
                   if w \<noteq> [] then upsert acc name [] (\<lambda>ws. ws @ [w]) else acc))
              [1 ..< length plasmid_names] all_plasmid_wells))"

definition all_plasmid_wells :: "table \<Rightarrow> (string \<times> string list) list" where
  "all_plasmid_wells csv_data =
     map (\<lambda>(name, ws). (name, fromkeys ws))
       (fold (register_names csv_data)
          (map (\<lambda>k. 15 * k) [0 ..< (length csv_data + 14) div 15]) [])"

fun load_wells ::
  "string \<Rightarrow> string list \<Rightarrow> (string \<rightharpoonup> string) \<Rightarrow> error + (string \<rightharpoonup> string)" where
  "load_wells name [] plasmid_well_map = Inr plasmid_well_map"
| "load_wells name (w # ws) plasmid_well_map =
     bindE (well PlasmidPlate w) (\<lambda>_. load_wells name ws (plasmid_well_map(w \<mapsto> name)))"

fun load_liquids ::
  "(string \<times> string list) list \<Rightarrow> (string \<rightharpoonup> string) \<Rightarrow> error + (string \<rightharpoonup> string)" where
  "load_liquids [] plasmid_well_map = Inr plasmid_well_map"
| "load_liquids ((name, ws) # rest) plasmid_well_map =
     bindE (load_wells name ws plasmid_well_map) (load_liquids rest)"

definition nacl_name :: string where
  "nacl_name = ''NaCl (150mM)''"

text \<open>
  Lines 186 to 197: the last non-empty cell of each mix's source-well row is recorded as
  holding NaCl.
\<close>

fun load_nacl ::
  "table \<Rightarrow> nat list \<Rightarrow> (string \<rightharpoonup> string) \<Rightarrow> error + (string \<rightharpoonup> string)" where
  "load_nacl csv_data [] plasmid_well_map = Inr plasmid_well_map"
| "load_nacl csv_data (mix_index # rest) plasmid_well_map =
     (let row_index = 13 + 15 * mix_index in
      if row_index \<ge> length csv_data then load_nacl csv_data rest plasmid_well_map
      else
        (let row = filter (\<lambda>cell. cell \<noteq> []) (map strip (csv_data ! row_index)) in
         if row = [] then load_nacl csv_data rest plasmid_well_map
         else
           (let last_well = last row in
            bindE (well PlasmidPlate last_well) (\<lambda>_.
              load_nacl csv_data rest (plasmid_well_map(last_well \<mapsto> nacl_name))))))"

definition liquid_registry :: "table \<Rightarrow> nat \<Rightarrow> error + (string \<rightharpoonup> string)" where
  "liquid_registry csv_data n =
     bindE (load_liquids (all_plasmid_wells csv_data) Map.empty)
       (load_nacl csv_data [0 ..< n])"

subsection \<open>Intermediate vessels (lines 278 to 332)\<close>

record vessels =
  intermediate_small_pool :: "string list"
  intermediate_final_pool :: "string list"
  intermediate_pool :: "string list"
  assigned_small_wells :: "string \<rightharpoonup> string"
  assigned_final_wells :: "string \<rightharpoonup> string"

text \<open>
  Lines 279 to 285. \<open>intermediate_pool\<close> is a list of its own, built by concatenating
  the other two; popping from one list does not change another.
\<close>

definition initial_vessels :: vessels where
  "initial_vessels =
     (let small_pool = map (\<lambda>i. ''C'' @ show_nat i) [1 ..< 7];
          final_pool = map (\<lambda>i. ''D'' @ show_nat i) [1 ..< 7]
      in \<lparr>intermediate_small_pool = small_pool,
          intermediate_final_pool = final_pool,
          intermediate_pool = small_pool @ final_pool,
          assigned_small_wells = Map.empty,
          assigned_final_wells = Map.empty\<rparr>)"

text \<open>
  Lines 296 to 298: \<open>scale_factors[0]\<close> is read first; the division happens once per
  volume.
\<close>

definition small_volumes_count :: "mix_data \<Rightarrow> error + nat" where
  "small_volumes_count md =
     bindE (getitem (scale_factors md) 0) (\<lambda>scale.
       if volumes md = [] then Inr 0
       else if scale = 0 then Inl (ZeroDivisionError ''float division by zero'')
       else Inr (length (filter (\<lambda>v. 0 < v / scale \<and> v / scale < 0.8) (volumes md))))"

text \<open>
  One pass of the loop body for one mix. The Boolean of the result is \<open>True\<close> when the
  body ran into an empty pool, paused and left the loop with \<open>break\<close>.
\<close>

definition assign_wells :: "vessels \<Rightarrow> mix_data \<Rightarrow> error + (vessels \<times> bool)" where
  "assign_wells vs md =
     bindE (small_volumes_count md) (\<lambda>n.
       if n > 1 then
         (if intermediate_small_pool vs = [] \<or> intermediate_final_pool vs = [] then Inr (vs, True)
          else
            (let small_well = hd (intermediate_small_pool vs);
                 final_well = hd (intermediate_final_pool vs) in
             bindE (well PlasmidPlate small_well) (\<lambda>_.
             bindE (well PlasmidPlate final_well) (\<lambda>_.
               Inr (vs\<lparr>intermediate_small_pool := tl (intermediate_small_pool vs),
                       intermediate_final_pool := tl (intermediate_final_pool vs),
                       assigned_small_wells := (assigned_small_wells vs)(dest_well md \<mapsto> small_well),
                       assigned_final_wells := (assigned_final_wells vs)(dest_well md \<mapsto> final_well)\<rparr>,
                    False)))))
       else if n = 1 then
         (if intermediate_pool vs = [] then Inr (vs, True)
          else
            (let final_well = hd (intermediate_pool vs) in
             bindE (well PlasmidPlate final_well) (\<lambda>_.
               Inr (vs\<lparr>intermediate_pool := tl (intermediate_pool vs),
                       assigned_final_wells := (assigned_final_wells vs)(dest_well md \<mapsto> final_well)\<rparr>,
                    False))))
       else Inr (vs, False))"

fun assign_all :: "vessels \<Rightarrow> mix_data list \<Rightarrow> error + (vessels \<times> bool)" where
  "assign_all vs [] = Inr (vs, False)"
| "assign_all vs (md # mds) =
     bindE (assign_wells vs md) (\<lambda>(vs', stop).
       if stop then Inr (vs', True) else assign_all vs' mds)"

definition not_enough_wells :: string where
  "not_enough_wells =
     [CHR 0xE2, CHR 0x9A, CHR 0xA0, CHR 0xEF, CHR 0xB8, CHR 0x8F]
     @ '' Not enough Eppendorf wells available!''"

subsection \<open>NaCl plan (lines 337 to 371)\<close>

definition mix_has_small_volumes :: "mix_data list \<Rightarrow> (string \<rightharpoonup> bool)" where
  "mix_has_small_volumes all_mix_data =
     fold (\<lambda>md m. m(dest_well md \<mapsto> (\<exists>v \<in> set (volumes md). 0 < v \<and> v < 0.8)))
       all_mix_data Map.empty"

text \<open>Where one mix's NaCl goes (lines 358 to 368).\<close>

definition nacl_dest ::
  "(string \<rightharpoonup> bool) \<Rightarrow> (string \<rightharpoonup> string) \<Rightarrow> string \<Rightarrow> error + well" where
  "nacl_dest has_small assigned_final dest_well_name =
     (case has_small dest_well_name of
        None \<Rightarrow> Inl (KeyError dest_well_name)
      | Some b \<Rightarrow>
          if b then
            (case assigned_final dest_well_name of
               Some final_epp \<Rightarrow> well PlasmidPlate final_epp
             | None \<Rightarrow> well PcrPlate dest_well_name)
          else well PcrPlate dest_well_name)"

record nacl_plan =
  nacl_totals :: "(string \<times> rat) list"
  nacl_dests :: "(string \<times> (well \<times> rat) list) list"

definition plan_mix ::
  "(string \<rightharpoonup> bool) \<Rightarrow> (string \<rightharpoonup> string) \<Rightarrow> mix_data \<Rightarrow> nacl_plan \<Rightarrow> error + nacl_plan" where
  "plan_mix has_small assigned_final md plan =
     bindE (getlast (volumes md)) (\<lambda>nacl_vol.
       if nacl_vol \<le> 0 then Inr plan
       else
         bindE (getlast (source_wells md)) (\<lambda>nacl_source_well_name.
         bindE (nacl_dest has_small assigned_final (dest_well md)) (\<lambda>d.
           Inr \<lparr>nacl_totals = upsert (nacl_totals plan) nacl_source_well_name 0 (\<lambda>t. t + nacl_vol),
                nacl_dests = upsert (nacl_dests plan) nacl_source_well_name []
                               (\<lambda>ds. ds @ [(d, nacl_vol)])\<rparr>)))"

fun plan_all ::
  "(string \<rightharpoonup> bool) \<Rightarrow> (string \<rightharpoonup> string) \<Rightarrow> mix_data list \<Rightarrow> nacl_plan \<Rightarrow> error + nacl_plan" where
  "plan_all has_small assigned_final [] plan = Inr plan"
| "plan_all has_small assigned_final (md # mds) plan =
     bindE (plan_mix has_small assigned_final md plan) (plan_all has_small assigned_final mds)"

definition plan_nacl :: "(string \<rightharpoonup> string) \<Rightarrow> mix_data list \<Rightarrow> error + nacl_plan" where
  "plan_nacl assigned_final all_mix_data =
     plan_all (mix_has_small_volumes all_mix_data) assigned_final all_mix_data
       \<lparr>nacl_totals = [], nacl_dests = []\<rparr>"

subsection \<open>NaCl dispense groups (lines 392 to 403)\<close>

text \<open>The loop state is \<open>(group, current_sum, grouped)\<close>.\<close>

fun pack ::
  "rat \<Rightarrow> rat \<Rightarrow> ('d \<times> rat) list \<Rightarrow> ('d \<times> rat) list \<times> rat \<times> ('d \<times> rat) list list
     \<Rightarrow> ('d \<times> rat) list \<times> rat \<times> ('d \<times> rat) list list" where
  "pack max_vol buffer [] acc = acc"
| "pack max_vol buffer ((dest, vol) # dest_list) (grp, current_sum, grouped) =
     (if current_sum + vol \<le> max_vol - buffer
      then pack max_vol buffer dest_list (grp @ [(dest, vol)], current_sum + vol, grouped)
      else pack max_vol buffer dest_list ([(dest, vol)], vol, grouped @ [grp]))"

text \<open>
  The groups that are executed: the loop over \<open>grouped\<close> sits inside \<open>if group:\<close>, after
  the last group has been appended.
\<close>

definition dispense_groups :: "rat \<Rightarrow> rat \<Rightarrow> ('d \<times> rat) list \<Rightarrow> ('d \<times> rat) list list" where
  "dispense_groups max_vol buffer dest_list =
     (case pack max_vol buffer dest_list ([], 0, []) of
        (grp, current_sum, grouped) \<Rightarrow> if grp \<noteq> [] then grouped @ [grp] else [])"

text \<open>Line 379.\<close>

definition nacl_max_vol :: "rat \<Rightarrow> rat \<Rightarrow> rat" where
  "nacl_max_vol total_vol buffer = (if total_vol + buffer \<le> 50 then 50 else 200)"


subsection \<open>Tips (lines 125 to 142 and every pickup)\<close>

record dna_params = common_params +
  max_plasmid_count :: nat
  starting_tip_50 :: string

record dna_state = robot +
  tiprack_50 :: labware
  tiprack_50_reserve :: labware
  tips50_by_row :: "well list"
  counter_50 :: nat
  counter_50_f :: nat
  premixed_sources :: "string set"

text \<open>
  \<open>swap_rack50\<close> rebinds the two racks and the tip queue; its assignment to
  \<open>counter_50\<close> creates a local variable and changes nothing outside.
\<close>

definition swap_rack50 :: "dna_state step" where
  "swap_rack50 st =
     (st\<lparr>events := events st @ [MoveLabware (tiprack_50 st) ''C4'',
                                 MoveLabware (tiprack_50_reserve st) ''B1''],
         tiprack_50 := tiprack_50_reserve st,
         tiprack_50_reserve := tiprack_50 st,
         tips50_by_row := tips_by_row (tiprack_50_reserve st)\<rparr>, None)"

definition pop_tip50 :: "dna_state step" where
  "pop_tip50 st =
     (case tips50_by_row st of
        [] \<Rightarrow> (st, Some (IndexError ''pop from empty list''))
      | tip # rest \<Rightarrow>
          (st\<lparr>events := events st @ [PickUpTip P50 tip],
              tips50_by_row := rest,
              counter_50 := counter_50 st + 1,
              counter_50_f := counter_50_f st + 1\<rparr>, None))"

definition pick_up_50 :: "dna_state step" where
  "pick_up_50 = seq (\<lambda>st. if tips50_by_row st = [] then swap_rack50 st else ok st) pop_tip50"

definition pick_up_200 :: "dna_state step" where
  "pick_up_200 st =
     (case tips200_by_row st of
        [] \<Rightarrow> (st, Some (IndexError ''pop from empty list''))
      | tip # rest \<Rightarrow>
          (st\<lparr>events := events st @ [PickUpTip P1000 tip],
              tips200_by_row := rest,
              counter_200 := counter_200 st + 1\<rparr>, None))"

fun pick_up :: "pipette \<Rightarrow> dna_state step" where
  "pick_up P50 = pick_up_50"
| "pick_up P1000 = pick_up_200"

text \<open>Commands whose location is a labware subscript evaluated as the call is made.\<close>

definition aspirate ::
  "pipette \<Rightarrow> rat \<Rightarrow> labware \<Rightarrow> string \<Rightarrow> (well \<Rightarrow> location) \<Rightarrow> ('a robot_scheme) step" where
  "aspirate pip vol lw name pos = need (well lw name) (\<lambda>w. emit (Aspirate pip vol (pos w)))"

definition dispense ::
  "pipette \<Rightarrow> rat \<Rightarrow> labware \<Rightarrow> string \<Rightarrow> (well \<Rightarrow> location) \<Rightarrow> ('a robot_scheme) step" where
  "dispense pip vol lw name pos = need (well lw name) (\<lambda>w. emit (Dispense pip vol (pos w)))"

definition blow_out ::
  "pipette \<Rightarrow> labware \<Rightarrow> string \<Rightarrow> (well \<Rightarrow> location) \<Rightarrow> ('a robot_scheme) step" where
  "blow_out pip lw name pos = need (well lw name) (\<lambda>w. emit (BlowOut pip (Some (pos w))))"

definition mix_in_place ::
  "pipette \<Rightarrow> nat \<Rightarrow> rat \<Rightarrow> labware \<Rightarrow> string \<Rightarrow> (well \<Rightarrow> location) \<Rightarrow> ('a robot_scheme) step" where
  "mix_in_place pip reps vol lw name pos =
     need (well lw name) (\<lambda>w. emit (MixInPlace pip reps vol (pos w)))"

subsection \<open>NaCl multi-dispensing (lines 373 to 415)\<close>

definition dispatch_group :: "pipette \<Rightarrow> rat \<Rightarrow> well \<Rightarrow> (well \<times> rat) list \<Rightarrow> dna_state step" where
  "dispatch_group pip buffer source g =
     steps [emit (Aspirate pip (sum_list (map snd g) + buffer) (At source)),
            foreach (\<lambda>(dest, vol). emit (Dispense pip vol (At dest))) g,
            emit (BlowOut pip (Some (Top source 0)))]"

definition dispatch_source :: "nacl_plan \<Rightarrow> string \<times> rat \<Rightarrow> dna_state step" where
  "dispatch_source plan = (\<lambda>(source_well_name, total_vol).
     (let dest_list = (case map_of (nacl_dests plan) source_well_name of
                         None \<Rightarrow> [] | Some ds \<Rightarrow> ds) in
      need (well PlasmidPlate source_well_name) (\<lambda>source.
        (let buffer = 2;
             max_vol = nacl_max_vol total_vol buffer;
             pip = (if max_vol = 50 then P50 else P1000);
             groups = dispense_groups max_vol buffer dest_list in
         steps [pick_up pip,
                if groups \<noteq> []
                then steps [foreach (dispatch_group pip buffer source) groups,
                            emit (DropTip pip)]
                else ok]))))"

definition dispatch_nacl :: "nacl_plan \<Rightarrow> dna_state step" where
  "dispatch_nacl plan = foreach (dispatch_source plan) (nacl_totals plan)"

subsection \<open>Plasmid transfers (lines 418 to 625)\<close>

definition plasmid_name_of :: "(string \<rightharpoonup> string) \<Rightarrow> string \<Rightarrow> string" where
  "plasmid_name_of plasmid_well_map src =
     (case plasmid_well_map src of None \<Rightarrow> ''Unknown'' | Some name \<Rightarrow> name)"

text \<open>Lines 437 to 456: each plasmid source is mixed in place once per batch.\<close>

definition premix_source :: "(string \<rightharpoonup> string) \<Rightarrow> bool \<Rightarrow> rat \<times> string \<Rightarrow> dna_state step" where
  "premix_source plasmid_well_map do_premix = (\<lambda>(vol, src) st.
     if plasmid_name_of plasmid_well_map src \<noteq> nacl_name \<and> do_premix
        \<and> src \<notin> premixed_sources st
     then steps [pick_up_200,
                 foreach (\<lambda>_. steps [aspirate P1000 200 PlasmidPlate src (\<lambda>w. Bottom w 1),
                                     dispense P1000 200 PlasmidPlate src (\<lambda>w. Bottom w 10)])
                         [0 ..< 6],
                 blow_out P1000 PlasmidPlate src (\<lambda>w. Top w (- 2)),
                 emit (DropTip P1000),
                 (\<lambda>st. (st\<lparr>premixed_sources := insert src (premixed_sources st)\<rparr>, None))] st
     else ok st)"

text \<open>
  Lines 460 to 471: the components other than NaCl, split into the small ones (kept at ten
  times their volume) and the normal ones. The result pairs each volume with its source.
\<close>

fun partition_components ::
  "(string \<rightharpoonup> string) \<Rightarrow> rat list \<Rightarrow> (rat \<times> string) list
     \<Rightarrow> error + ((rat \<times> string) list \<times> (rat \<times> string) list)" where
  "partition_components plasmid_well_map sfs [] = Inr ([], [])"
| "partition_components plasmid_well_map sfs ((vol, src) # rest) =
     (if plasmid_name_of plasmid_well_map src = nacl_name
      then partition_components plasmid_well_map sfs rest
      else
        bindE (getitem sfs 0) (\<lambda>scale.
          if scale = 0 then Inl (ZeroDivisionError ''float division by zero'')
          else
            bindE (partition_components plasmid_well_map sfs rest) (\<lambda>(small, normal).
              if 0 < vol / scale \<and> vol / scale < 0.8
              then Inr ((vol * 10, src) # small, normal)
              else Inr (small, (vol, src) # normal))))"

text \<open>Lines 482 to 500: one small aliquot into the small staging vessel.\<close>

definition stage_small :: "string \<Rightarrow> rat \<times> string \<Rightarrow> dna_state step" where
  "stage_small intermediate_well_small = (\<lambda>(vol, src).
     if 0 < vol \<and> vol \<le> 50 then
       steps [pick_up_50,
              aspirate P50 vol PlasmidPlate src At,
              dispense P50 vol PlasmidPlate intermediate_well_small At,
              emit (BlowOut P50 None),
              emit (DropTip P50)]
     else if 50 < vol \<and> vol \<le> 200 then
       steps [pick_up_200,
              aspirate P1000 vol PlasmidPlate src At,
              dispense P1000 vol PlasmidPlate intermediate_well_small At,
              emit (BlowOut P1000 None),
              emit (DropTip P1000)]
     else ok)"

text \<open>Lines 505 to 525: the pooled small volumes go from the small to the final vessel.\<close>

definition pool_to_final :: "string \<Rightarrow> string \<Rightarrow> rat list \<Rightarrow> dna_state step" where
  "pool_to_final intermediate_well_small intermediate_well_final small_volumes =
     (let total_intermediate_volume = sum_list small_volumes;
          final_transfer = total_intermediate_volume / 10 in
      if final_transfer \<le> 50 then
        steps [pick_up_50,
               mix_in_place P50 3 (0.8 * total_intermediate_volume)
                 PlasmidPlate intermediate_well_small (\<lambda>w. Bottom w 0.1),
               aspirate P50 final_transfer PlasmidPlate intermediate_well_small (\<lambda>w. Bottom w 0.1),
               dispense P50 final_transfer PlasmidPlate intermediate_well_final At,
               emit (BlowOut P50 None),
               emit (DropTip P50)]
      else
        steps [pick_up_200,
               aspirate P1000 final_transfer PlasmidPlate intermediate_well_small (\<lambda>w. Bottom w 0.1),
               dispense P1000 final_transfer PlasmidPlate intermediate_well_final At,
               emit (BlowOut P1000 None),
               emit (DropTip P1000)])"

text \<open>Lines 540 to 556: the only small component goes straight to the final vessel.\<close>

definition single_small :: "string \<Rightarrow> rat \<Rightarrow> string \<Rightarrow> dna_state step" where
  "single_small intermediate_well_final vol src =
     (let pip = (if vol \<le> 50 then P50 else P1000) in
      steps [pick_up pip,
             aspirate pip vol PlasmidPlate src At,
             dispense pip vol PlasmidPlate intermediate_well_final At,
             emit (BlowOut pip None),
             emit (DropTip pip)])"

text \<open>
  Lines 558 to 575 and 607 to 624: a normal component into the target, which is the final
  vessel or the destination well.
\<close>

definition transfer_normal :: "labware \<Rightarrow> string \<Rightarrow> rat \<times> string \<Rightarrow> dna_state step" where
  "transfer_normal target_lw target = (\<lambda>(vol, src).
     if vol \<le> 0 then ok
     else
       (let pip = (if vol \<le> 50 then P50 else P1000) in
        steps [pick_up pip,
               aspirate pip vol PlasmidPlate src At,
               dispense pip vol target_lw target At,
               blow_out pip target_lw target (\<lambda>w. Top w (- 2)),
               emit (DropTip pip)]))"

text \<open>Lines 577 to 600: the content of the final vessel goes to the destination well.\<close>

definition final_transfer_to_pcr :: "string \<Rightarrow> mix_data \<Rightarrow> dna_state step" where
  "final_transfer_to_pcr intermediate_well_final md =
     need (total_volume md) (\<lambda>total.
       (let pip = (if total \<le> 50 then P50 else P1000);
            mix_vol = min (total * 0.8) 50 in
        steps [pick_up pip,
               mix_in_place pip 3 mix_vol PlasmidPlate intermediate_well_final (\<lambda>w. Bottom w 1),
               aspirate pip total PlasmidPlate intermediate_well_final (\<lambda>w. Bottom w 1),
               dispense pip total PcrPlate (dest_well md) (\<lambda>w. Bottom w 1),
               blow_out pip PcrPlate (dest_well md) (\<lambda>w. Top w (- 2)),
               emit (DropTip pip)]))"

text \<open>\<open>d[k]\<close> on a dictionary.\<close>

definition lookup :: "(string \<rightharpoonup> 'v) \<Rightarrow> string \<Rightarrow> error + 'v" where
  "lookup d k = (case d k of None \<Rightarrow> Inl (KeyError k) | Some v \<Rightarrow> Inr v)"

text \<open>The body of the loop over the mixes of a batch (lines 427 to 624).\<close>

definition transfer_mix ::
  "(string \<rightharpoonup> string) \<Rightarrow> bool \<Rightarrow> vessels \<Rightarrow> mix_data \<Rightarrow> dna_state step" where
  "transfer_mix plasmid_well_map do_premix vs md =
     steps
       [foreach (premix_source plasmid_well_map do_premix) (zip (volumes md) (source_wells md)),
        need (partition_components plasmid_well_map (scale_factors md)
                (zip (volumes md) (source_wells md)))
          (\<lambda>(small, normal).
             if small \<noteq> [] then
               (if length small > 1 then
                  need (lookup (assigned_small_wells vs) (dest_well md)) (\<lambda>intermediate_well_small.
                    steps
                      [foreach (stage_small intermediate_well_small) small,
                       need (lookup (assigned_final_wells vs) (dest_well md))
                         (\<lambda>intermediate_well_final.
                            steps
                              [pool_to_final intermediate_well_small intermediate_well_final
                                 (map fst small),
                               foreach (transfer_normal PlasmidPlate intermediate_well_final) normal,
                               final_transfer_to_pcr intermediate_well_final md])])
                else
                  need (lookup (assigned_final_wells vs) (dest_well md)) (\<lambda>intermediate_well_final.
                    (let vol = fst (hd small) / 10; src = snd (hd small) in
                     if vol \<le> 0 then ok
                     else
                       steps
                         [single_small intermediate_well_final vol src,
                          foreach (transfer_normal PlasmidPlate intermediate_well_final) normal,
                          final_transfer_to_pcr intermediate_well_final md])))
             else foreach (transfer_normal PcrPlate (dest_well md)) normal)]"

text \<open>Lines 419 to 427: batches of twelve mixes, each with a fresh set of premixed sources.\<close>

definition transfer_batch ::
  "(string \<rightharpoonup> string) \<Rightarrow> bool \<Rightarrow> vessels \<Rightarrow> nat \<Rightarrow> mix_data list \<Rightarrow> nat \<Rightarrow> dna_state step" where
  "transfer_batch plasmid_well_map do_premix vs n all_mix_data batch_start =
     (let batch_size = 12;
          batch_end = min (batch_start + batch_size) n;
          batch_mix_data = take (batch_end - batch_start) (drop batch_start all_mix_data) in
      steps [(\<lambda>st. (st\<lparr>premixed_sources := {}\<rparr>, None)),
             foreach (transfer_mix plasmid_well_map do_premix vs) batch_mix_data])"

definition transfer_plasmids ::
  "(string \<rightharpoonup> string) \<Rightarrow> bool \<Rightarrow> vessels \<Rightarrow> nat \<Rightarrow> mix_data list \<Rightarrow> dna_state step" where
  "transfer_plasmids plasmid_well_map do_premix vs n all_mix_data =
     foreach (transfer_batch plasmid_well_map do_premix vs n all_mix_data)
       (map (\<lambda>k. 12 * k) [0 ..< (n + 11) div 12])"

subsection \<open>The whole run of \<open>DNAmix_final.py\<close>\<close>

definition finish :: "'s \<times> error option \<Rightarrow> 's \<times> outcome" where
  "finish r = (case r of (st, None) \<Rightarrow> (st, Completed) | (st, Some e) \<Rightarrow> (st, Raised e))"

text \<open>Lines 278 to 628: what follows a successful parse.\<close>

definition execute ::
  "dna_params \<Rightarrow> (string \<rightharpoonup> string) \<Rightarrow> mix_data list \<Rightarrow> dna_state \<Rightarrow> dna_state \<times> outcome" where
  "execute p plasmid_well_map all_mix_data st =
     (case assign_all initial_vessels all_mix_data of
        Inl e \<Rightarrow> (st, Raised e)
      | Inr (vs, stop) \<Rightarrow>
          finish
            (steps
               [if stop then emit (Pause not_enough_wells) else ok,
                emit CloseLatch,
                need (plan_nacl (assigned_final_wells vs) all_mix_data) (\<lambda>plan.
                  steps [dispatch_nacl plan,
                         transfer_plasmids plasmid_well_map (premix p) vs (mix_count p) all_mix_data,
                         emit OpenLatch])] st))"

definition initial_dna_state :: dna_state where
  "initial_dna_state =
     \<lparr>events = [], tips200_by_row = tips_by_row Tiprack200, counter_200 = 0,
      tiprack_50 = Tiprack50, tiprack_50_reserve = Tiprack50Reserve,
      tips50_by_row = tips_by_row Tiprack50, counter_50 = 0, counter_50_f = 0,
      premixed_sources = {}\<rparr>"

text \<open>
  \<open>run\<close>, from the table as \<open>csv.reader\<close> delivers it. An exception inside the \<open>try\<close>
  block of the parser is turned into a pause followed by \<open>return\<close>; any other exception
  leaves the function.
\<close>

definition run ::
  "(string \<Rightarrow> rat option) \<Rightarrow> dna_params \<Rightarrow> table \<Rightarrow> dna_state \<times> outcome" where
  "run float_of p raw_csv =
     (let csv_data = clean_cells raw_csv; st0 = initial_dna_state in
      case find_tip_index (tips50_by_row st0) (starting_tip_50 p) of
        Inl e \<Rightarrow> (st0, Raised e)
      | Inr i50 \<Rightarrow>
     (case find_tip_index (tips200_by_row st0) (starting_tip_200 p) of
        Inl e \<Rightarrow> (st0, Raised e)
      | Inr i200 \<Rightarrow>
     (let st = st0\<lparr>tips50_by_row := drop i50 (tips50_by_row st0),
                  tips200_by_row := drop i200 (tips200_by_row st0)\<rparr> in
      case liquid_registry csv_data (mix_count p) of
        Inl e \<Rightarrow> (st, Raised e)
      | Inr plasmid_well_map \<Rightarrow>
     (case parse_mixes float_of (max_plasmid_count p) csv_data [0 ..< mix_count p] of
        Inl e \<Rightarrow> (st\<lparr>events := events st @ [Pause (''Error parsing CSV: '' @ str_of_error e)]\<rparr>,
                  Returned)
      | Inr all_mix_data \<Rightarrow> execute p plasmid_well_map all_mix_data st))))"


section \<open>Aliquoting protocol (\<open>DNAmix_aliquoting_final.py\<close>)\<close>

record aliquot_params = common_params +
  reagent_vol :: nat
  aliquot_vol :: nat
  reagent_eppendorf :: string
  mix_position :: string
  mix_rows_count :: nat
  mix_columns_per_row :: nat
  delay :: nat
  starting_tip_1000 :: string
  premixvol :: nat

record aliquot_state = robot +
  tips1000_by_row :: "well list"
  counter_1000 :: nat
  vol_in_tip :: rat

text \<open>\<open>str.upper()\<close> on one ASCII character.\<close>

definition upper :: "char \<Rightarrow> char" where
  "upper c =
     (case map_of (zip ''abcdefghijklmnopqrstuvwxyz'' ''ABCDEFGHIJKLMNOPQRSTUVWXYZ'') c of
        None \<Rightarrow> c | Some u \<Rightarrow> u)"

text \<open>\<open>rows.index(start_row)\<close>.\<close>

fun index_of :: "'a list \<Rightarrow> 'a \<Rightarrow> error + nat" where
  "index_of [] x = Inl (ValueError ''substring not found'')"
| "index_of (y # ys) x = (if y = x then Inr 0 else bindE (index_of ys x) (\<lambda>i. Inr (Suc i)))"

text \<open>
  \<open>int(mix_position[1:])\<close> on the digit strings the parameter's choices produce; any other
  text counts as a ValueError.
\<close>

definition int_of :: "string \<Rightarrow> error + nat" where
  "int_of s =
     (case nat_of_digits s of
        None \<Rightarrow> Inl (ValueError (''invalid literal for int() with base 10: ''
                                   @ [CHR 0x27] @ s @ [CHR 0x27]))
      | Some n \<Rightarrow> Inr n)"

text \<open>Lines 205 to 208: the starting row and column of the mixes.\<close>

definition start_of :: "string \<Rightarrow> error + (nat \<times> nat)" where
  "start_of position =
     (case position of
        [] \<Rightarrow> Inl (IndexError ''string index out of range'')
      | c # cs \<Rightarrow>
          bindE (int_of cs) (\<lambda>start_col.
          bindE (index_of ''ABCDEFGH'' (upper c)) (\<lambda>row_index.
            Inr (row_index, start_col))))"

text \<open>Lines 215 and 216.\<close>

definition all_wells :: "nat \<Rightarrow> nat \<Rightarrow> nat \<Rightarrow> nat \<Rightarrow> string list" where
  "all_wells row_index start_col rows_count columns_per_row =
     (let selected_rows = take rows_count (drop row_index ''ABCDEFGH'') in
      concat (map (\<lambda>r. map (\<lambda>c. r # show_nat c) [start_col ..< start_col + columns_per_row])
                  selected_rows))"

fun wells_in :: "labware \<Rightarrow> string list \<Rightarrow> error + well list" where
  "wells_in lw [] = Inr []"
| "wells_in lw (name # names) =
     bindE (well lw name) (\<lambda>w. bindE (wells_in lw names) (\<lambda>ws. Inr (w # ws)))"

text \<open>
  Lines 204 to 222: the destination wells of the mixes. A failed geometry check pauses
  with a message and raises; otherwise the script goes on with the wells, here \<open>body\<close>.
\<close>

definition with_destination_wells ::
  "aliquot_params \<Rightarrow> (well list \<Rightarrow> aliquot_state step) \<Rightarrow> aliquot_state step" where
  "with_destination_wells p body =
     need (start_of (mix_position p)) (\<lambda>(row_index, start_col).
       if row_index + mix_rows_count p > length ''ABCDEFGH''
       then steps [emit (Pause ''Error: Too many rows selected for the starting position.''),
                   raise (RuntimeError ''Invalid row selection.'')]
       else
         (let ws = all_wells row_index start_col (mix_rows_count p) (mix_columns_per_row p) in
          if length ws < mix_count p
          then steps [emit (Pause (''Error: Only '' @ show_nat (length ws)
                                   @ '' wells available for mix placement.'')),
                      raise (RuntimeError ''Not enough wells assigned for mixes.'')]
          else need (wells_in PcrPlate (take (mix_count p) ws)) body))"

text \<open>The body of the distribution loop (lines 241 to 258).\<close>

definition distribute_body :: "aliquot_params \<Rightarrow> well \<Rightarrow> well list \<Rightarrow> nat \<Rightarrow> aliquot_state step" where
  "distribute_body p source dests well_index =
     steps
       [(\<lambda>st.
           (let remaining_wells = mix_count p - well_index in
            if vol_in_tip st < of_nat (reagent_vol p) then
              (let to_aspirate = min (1000 * 0.9) (of_nat (remaining_wells * reagent_vol p)) in
               steps [if premix p then emit (MixInPlace P1000 3 (of_nat (premixvol p)) (At source))
                      else ok,
                      emit (Aspirate P1000 to_aspirate (At source)),
                      (\<lambda>st. (st\<lparr>vol_in_tip := to_aspirate\<rparr>, None))] st)
            else ok st)),
        need (getitem dests well_index) (\<lambda>d.
          emit (Dispense P1000 (of_nat (reagent_vol p)) (Top d 0))),
        emit (AirGap P1000 5),
        (\<lambda>st. (st\<lparr>vol_in_tip := vol_in_tip st - of_nat (reagent_vol p)\<rparr>, None))]"

function distribute :: "aliquot_params \<Rightarrow> well \<Rightarrow> well list \<Rightarrow> nat \<Rightarrow> aliquot_state step" where
  "distribute p source dests well_index st =
     (if well_index < mix_count p then
        (case distribute_body p source dests well_index st of
           (st', None) \<Rightarrow> distribute p source dests (well_index + 1) st'
         | (st', Some e) \<Rightarrow> (st', Some e))
      else (st, None))"
  by pat_completeness auto
termination
  by (relation "measure (\<lambda>(p, source, dests, well_index, st). mix_count p - well_index)") auto

declare distribute.simps [simp del]

text \<open>The body of the aliquoting loop (lines 266 to 297) for mix \<open>i\<close>.\<close>

definition aliquot_mix :: "aliquot_params \<Rightarrow> nat \<times> well \<Rightarrow> aliquot_state step" where
  "aliquot_mix p = (\<lambda>(i, source_well).
     (let block = (i div 6) mod 4;
          col = (i mod 6) + 1 + (if block \<in> set [2, 3] then 6 else 0);
          rows_block = (if block mod 2 = 0 then ''ABCD'' else ''EFGH'') in
      need (wells_in CellPlate (map (\<lambda>r. r # show_nat col) rows_block)) (\<lambda>target_locs.
        steps
          [(\<lambda>st.
              if aliquot_vol p * 4 \<le> 200
              then need (getitem (tips200_by_row st) (counter_200 st)) (\<lambda>tip.
                     steps [(\<lambda>st. (st\<lparr>counter_200 := counter_200 st + 1\<rparr>, None)),
                            emit (PickUpTip P1000 tip)]) st
              else need (getitem (tips1000_by_row st) (counter_1000 st)) (\<lambda>tip.
                     steps [(\<lambda>st. (st\<lparr>counter_1000 := counter_1000 st + 1\<rparr>, None)),
                            emit (PickUpTip P1000 tip)]) st),
           emit (MixInPlace P1000 5 (of_nat (reagent_vol p)) (At source_well)),
           emit (Aspirate P1000 (of_nat (aliquot_vol p * 4)) (At source_well)),
           foreach (\<lambda>loc. emit (Dispense P1000 (of_nat (aliquot_vol p)) (At loc))) target_locs,
           emit (DropTip P1000)])))"

definition initial_aliquot_state :: aliquot_state where
  "initial_aliquot_state =
     \<lparr>events = [], tips200_by_row = tips_by_row Tiprack200, counter_200 = 0,
      tips1000_by_row = tips_by_row Tiprack1000, counter_1000 = 0, vol_in_tip = 0\<rparr>"

text \<open>
  \<open>run\<close> of the aliquoting script. The pipette has just been loaded, so \<open>has_tip\<close> is
  false at line 227 and the first tip is picked up.
\<close>

definition run_aliquoting :: "aliquot_params \<Rightarrow> aliquot_state \<times> outcome" where
  "run_aliquoting p =
     finish
       (need (find_tip_index (tips_by_row Tiprack200) (starting_tip_200 p)) (\<lambda>i200.
        need (find_tip_index (tips_by_row Tiprack1000) (starting_tip_1000 p)) (\<lambda>i1000.
          steps
            [(\<lambda>st. (st\<lparr>tips200_by_row := drop i200 (tips200_by_row st),
                         tips1000_by_row := drop i1000 (tips1000_by_row st)\<rparr>, None)),
             need (well ReagentPlate (reagent_eppendorf p)) (\<lambda>source.
               with_destination_wells p (\<lambda>dests.
                 steps
                   [emit CloseLatch,
                    (\<lambda>st. need (getitem (tips1000_by_row st) (counter_1000 st)) (\<lambda>tip.
                             steps [emit (PickUpTip P1000 tip),
                                    (\<lambda>st. (st\<lparr>counter_1000 := counter_1000 st + 1\<rparr>, None))]) st),
                    distribute p source dests 0,
                    emit (DropTip P1000),
                    emit (Delay (delay p)),
                    foreach (aliquot_mix p) (zip [0 ..< length dests] dests),
                    emit OpenLatch]))]))
        initial_aliquot_state)"


section \<open>Reference notions and sample inputs\<close>


text \<open>
  A block of fifteen rows describing one mix: the destination well and the plasmid names
  in row 0, the volumes in row 12, the source wells in row 13, the last of them holding
  NaCl.
\<close>

definition layout_block :: "string \<Rightarrow> string list \<Rightarrow> string list \<Rightarrow> table" where
  "layout_block dest vols srcs =
     [dest # map (\<lambda>i. ''P'' @ show_nat i) [1 ..< length vols]] @ replicate 11 []
     @ [''Volume'' # vols, ''Well'' # srcs, []]"

text \<open>One mix of 5 and 0.4 \<open>\<mu>\<close>L of two plasmids with 10 \<open>\<mu>\<close>L of NaCl.\<close>

definition one_small_table :: table where
  "one_small_table = layout_block ''A1'' [''5'', ''0.4'', ''10''] [''A1'', ''A2'', ''A6'']"

definition one_small_mix :: mix_data where
  "one_small_mix = \<lparr>volumes = [10, 0.8, 20], scale_factors = [2],
                     source_wells = [''A1'', ''A2'', ''A6''], dest_well = ''A1''\<rparr>"

text \<open>The same table with an empty row in place of row 0.\<close>

definition empty_dest_row_table :: table where
  "empty_dest_row_table = [] # tl one_small_table"

text \<open>
  A dispense group fits the limit, or it is a single destination that is too large on
  its own.
\<close>

definition fits :: "rat \<Rightarrow> ('d \<times> rat) list \<Rightarrow> bool" where
  "fits limit g = (sum_list (map snd g) \<le> limit \<or> (length g = 1 \<and> limit < snd (hd g)))"

text \<open>One mix of 5 \<open>\<mu>\<close>L of plasmid with 250 \<open>\<mu>\<close>L of NaCl.\<close>

definition large_nacl_table :: table where
  "large_nacl_table = layout_block ''A1'' [''5'', ''250''] [''A1'', ''A6'']"

definition large_nacl_mix :: mix_data where
  "large_nacl_mix = \<lparr>volumes = [5, 250], scale_factors = [1, 1],
                      source_wells = [''A1'', ''A6''], dest_well = ''A1''\<rparr>"

text \<open>
  What the allocator has recorded for one destination well: whether the loop stopped on
  an empty pool, the small vessel and the final vessel.
\<close>

definition allocation_for :: "string \<Rightarrow> error + vessels \<times> bool \<Rightarrow> error + bool \<times> string option \<times> string option" where
  "allocation_for dest r =
     bindE r (\<lambda>(vs, stop). Inr (stop, assigned_small_wells vs dest, assigned_final_wells vs dest))"

text \<open>
  A mix of two plasmids of 0.25 \<open>\<mu>\<close>L each with 10 \<open>\<mu>\<close>L of NaCl, as the parser
  delivers it (rescaled by 1.6), and a table of seven such mixes for the wells A1 to A7.
\<close>

definition two_small_mix :: "string \<Rightarrow> mix_data" where
  "two_small_mix dest = \<lparr>volumes = [0.4, 0.4, 16], scale_factors = [1.6],
                         source_wells = [''A1'', ''A2'', ''A6''], dest_well = dest\<rparr>"



text \<open>The NaCl plan built from the vessels assigned to the mixes, as \<open>run\<close> builds it.\<close>

definition planned_nacl :: "mix_data list \<Rightarrow> error + nacl_plan" where
  "planned_nacl all_mix_data =
     bindE (assign_all initial_vessels all_mix_data) (\<lambda>(vs, stop).
       plan_nacl (assigned_final_wells vs) all_mix_data)"

text \<open>The mix with one small volume followed by a mix with two.\<close>

definition one_then_two_table :: table where
  "one_then_two_table = one_small_table
     @ layout_block ''A2'' [''0.25'', ''0.25'', ''10''] [''A1'', ''A2'', ''A6'']"

text \<open>
  The destination wells that the starting position and the rows and columns geometry
  determine on the 96-well plate: the wells of \<open>all_wells\<close> that exist on it.
\<close>

definition available_wells :: "aliquot_params \<Rightarrow> nat" where
  "available_wells p =
     (case start_of (mix_position p) of
        Inl e \<Rightarrow> 0
      | Inr (row_index, start_col) \<Rightarrow>
          length (filter (\<lambda>name. name \<in> set (wells_of PcrPlate))
                    (all_wells row_index start_col (mix_rows_count p) (mix_columns_per_row p))))"

text \<open>The parameters' default values, and the same with thirteen mixes for twelve wells.\<close>

definition default_aliquot_params :: aliquot_params where
  "default_aliquot_params =
     \<lparr>mix_count = 12, starting_tip_200 = ''A1'', premix = False, reagent_vol = 88,
      aliquot_vol = 20, reagent_eppendorf = ''D6'', mix_position = ''C1'', mix_rows_count = 2,
      mix_columns_per_row = 6, delay = 15, starting_tip_1000 = ''A1'', premixvol = 2\<rparr>"

definition thirteen_mixes :: aliquot_params where
  "thirteen_mixes = default_aliquot_params\<lparr>mix_count := 13\<rparr>"

text \<open>The commands that pick up a tip or move liquid.\<close>

definition tip_or_liquid :: "event \<Rightarrow> bool" where
  "tip_or_liquid e = (is_pick_up e \<or> is_transfer e)"

text \<open>
  The DNA mix protocol's default parameters, and two variations: two mixes requested of
  a table that holds one, and one mix requested of a table that holds none.
\<close>

definition default_dna_params :: dna_params where
  "default_dna_params =
     \<lparr>mix_count = 3, starting_tip_200 = ''A1'', premix = True,
      max_plasmid_count = 6, starting_tip_50 = ''A1''\<rparr>"

definition two_of_one :: dna_params where
  "two_of_one = default_dna_params\<lparr>mix_count := 2\<rparr>"

definition one_of_none :: dna_params where
  "one_of_none = default_dna_params\<lparr>mix_count := 1\<rparr>"

text \<open>A step keeps the trace when it only appends to it.\<close>

definition keeps_trace :: "('a robot_scheme) step \<Rightarrow> bool" where
  "keeps_trace f = (\<forall>st. \<exists>tail. events (fst (f st)) = events st @ tail)"


section \<open>Basic lemmas\<close>

lemma bindE_Inl [simp]: "bindE (Inl e) f = Inl e"
  by (simp add: bindE_def)

lemma bindE_Inr [simp]: "bindE (Inr x) f = f x"
  by (simp add: bindE_def)

lemma bindE_eq_Inr: "bindE m f = Inr y \<longleftrightarrow> (\<exists>x. m = Inr x \<and> f x = Inr y)"
  by (cases m) simp_all


section \<open>The rescaler\<close>




lemma parse_cell_nonneg:
  "parse_cell f csv r i = Inr (Some (v, w)) \<Longrightarrow> 0 \<le> v"
  by (auto simp: parse_cell_def bindE_eq_Inr Let_def split: if_splits option.splits)

lemma parse_cols_nonneg:
  "parse_cols f csv r is = Inr (vs, ws) \<Longrightarrow> \<forall>v \<in> set vs. 0 \<le> v"
proof (induction "is" arbitrary: vs ws)
  case Nil
  then show ?case by simp
next
  case (Cons i "is")
  then show ?case
    by (fastforce simp: bindE_eq_Inr split: option.splits dest: parse_cell_nonneg)
qed

lemma parse_components_nonneg:
  "parse_components f maxp csv m = Inr (vs, ws) \<Longrightarrow> \<forall>v \<in> set vs. 0 \<le> v"
  by (auto simp: parse_components_def Let_def bindE_eq_Inr dest: parse_cols_nonneg)

lemma sum_list_pos_rat:
  fixes xs :: "rat list"
  shows "xs \<noteq> [] \<Longrightarrow> \<forall>x \<in> set xs. 0 < x \<Longrightarrow> 0 < sum_list xs"
proof (induction xs)
  case Nil
  then show ?case by simp
next
  case (Cons x xs)
  then show ?case by (cases xs) (auto intro: add_pos_pos)
qed

lemma small_sum_pos:
  fixes vs :: "rat list"
  assumes "filter (\<lambda>v. 0 < v \<and> v < 0.8) vs \<noteq> []"
  shows "0 < sum_list (filter (\<lambda>v. 0 < v \<and> v < 0.8) vs)"
  using assms by (intro sum_list_pos_rat) auto

lemma Min_pos_rat:
  fixes xs :: "rat list"
  assumes "xs \<noteq> []" and "\<forall>x \<in> set xs. 0 < x"
  shows "0 < Min (set xs)"
proof -
  have "set xs \<noteq> {}" using assms(1) by simp
  then have "Min (set xs) \<in> set xs" by (intro Min_in) simp_all
  with assms(2) show ?thesis by blast
qed

lemma small_min_pos:
  fixes vs :: "rat list"
  assumes "filter (\<lambda>v. 0 < v \<and> v < 0.8) vs \<noteq> []"
  shows "0 < Min (set (filter (\<lambda>v. 0 < v \<and> v < 0.8) vs))"
  using assms by (intro Min_pos_rat) auto

lemma rescale_scale_pos: "s \<in> set (snd (rescale vs)) \<Longrightarrow> 0 < s"
  using small_sum_pos [of vs] small_min_pos [of vs]
  by (auto simp: rescale_def Let_def split: if_splits)

lemma rescale_volumes: 
  "snd (rescale vs) \<noteq> [] \<Longrightarrow> fst (rescale vs) = map (\<lambda>v. v * hd (snd (rescale vs))) vs"
  by (auto simp: rescale_def Let_def map_idI split: if_splits)

lemma rescale_factors_empty: "snd (rescale vs) = [] \<longleftrightarrow> vs = []"
  by (auto simp: rescale_def Let_def split: if_splits)

lemma rescale_factors_same: "s \<in> set (snd (rescale vs)) \<Longrightarrow> hd (snd (rescale vs)) = s"
  by (cases vs) (auto simp: rescale_def Let_def split: if_splits)

lemma sum_list_scaled:
  fixes vs :: "rat list"
  shows "sum_list (map (\<lambda>v. v * s) vs) = sum_list vs * s"
  by (induction vs) (simp_all add: distrib_right)

lemma sum_list_pos_filter:
  fixes vs :: "rat list"
  shows "\<forall>v \<in> set vs. 0 \<le> v \<Longrightarrow> sum_list (filter (\<lambda>v. 0 < v) vs) = sum_list vs"
  by (induction vs) auto

lemma rescale_sum:
  assumes "s \<in> set (snd (rescale vs))"
  shows "sum_list (fst (rescale vs)) / s = sum_list vs"
proof -
  have pos: "0 < s" using assms by (rule rescale_scale_pos)
  have ne: "snd (rescale vs) \<noteq> []" using assms by auto
  have "hd (snd (rescale vs)) = s" using assms by (rule rescale_factors_same)
  with rescale_volumes [OF ne] have "fst (rescale vs) = map (\<lambda>v. v * s) vs" by simp
  then show ?thesis using pos by (simp add: sum_list_scaled)
qed

lemma total_volume_rescaled:
  assumes nonneg: "\<forall>v \<in> set vs. 0 \<le> v"
  shows "total_volume \<lparr>volumes = fst (rescale vs), scale_factors = snd (rescale vs),
                        source_wells = ws, dest_well = d\<rparr> = Inr (sum_list vs)"
proof (cases "vs = []")
  case True
  then show ?thesis by (simp add: total_volume_def rescale_def)
next
  case False
  then have ne: "snd (rescale vs) \<noteq> []" by (simp add: rescale_factors_empty)
  define s where "s = hd (snd (rescale vs))"
  have s_in: "s \<in> set (snd (rescale vs))" using ne by (simp add: s_def)
  then have pos: "0 < s" by (rule rescale_scale_pos)
  have vols: "fst (rescale vs) = map (\<lambda>v. v * s) vs"
    using rescale_volumes [OF ne] by (simp add: s_def)
  have filt: "filter (\<lambda>v. 0 < v) (map (\<lambda>v. v * s) vs) = map (\<lambda>v. v * s) (filter (\<lambda>v. 0 < v) vs)"
    using pos by (induction vs) (auto simp: zero_less_mult_iff)
  have get: "getitem (snd (rescale vs)) 0 = Inr s"
    using ne by (cases "snd (rescale vs)") (simp_all add: getitem_def s_def)
  have unscale: "map ((\<lambda>v. v / s) \<circ> (\<lambda>v. v * s)) xs = xs" for xs :: "rat list"
    using pos by (induction xs) auto
  show ?thesis
  proof (cases "filter (\<lambda>v. 0 < v) vs = []")
    case True
    then have "sum_list vs = 0" using sum_list_pos_filter [OF nonneg] by simp
    with True show ?thesis by (simp add: total_volume_def vols filt)
  next
    case False
    then show ?thesis
      using pos sum_list_pos_filter [OF nonneg]
      by (simp add: total_volume_def vols filt get unscale)
  qed
qed

text \<open>
  Claim C7: for every parsed mix, the rescaled volumes summed and divided by the mix's
  scale factor give the sum of the volumes read from the table, and the total that line
  577 computes for the final transfer is that same sum.
\<close>

theorem rescaling_preserves_total:
  assumes "parse_mix float_of maxp csv_data mix_index = Inr md"
  shows "\<exists>original wells.
           parse_components float_of maxp csv_data mix_index = Inr (original, wells)
           \<and> (\<forall>s \<in> set (scale_factors md). sum_list (volumes md) / s = sum_list original)
           \<and> total_volume md = Inr (sum_list original)"
proof -
  from assms obtain original wells d where
    pc: "parse_components float_of maxp csv_data mix_index = Inr (original, wells)"
    and md: "md = \<lparr>volumes = fst (rescale original), scale_factors = snd (rescale original),
                    source_wells = wells, dest_well = d\<rparr>"
    by (auto simp: parse_mix_def bindE_eq_Inr)
  have nonneg: "\<forall>v \<in> set original. 0 \<le> v" using pc by (rule parse_components_nonneg)
  have "\<forall>s \<in> set (scale_factors md). sum_list (volumes md) / s = sum_list original"
    by (simp add: md rescale_sum)
  moreover have "total_volume md = Inr (sum_list original)"
    unfolding md using nonneg by (rule total_volume_rescaled)
  ultimately show ?thesis using pc by blast
qed

theorem rescaling_preserves_total_witness:
  "parse_mix decimal 6 one_small_table 0 = Inr one_small_mix
   \<and> scale_factors one_small_mix = [2]
   \<and> sum_list (volumes one_small_mix) / 2 = 15.4
   \<and> total_volume one_small_mix = Inr 15.4"
proof -
  have h: "parse_mix decimal 6 one_small_table 0 = Inr one_small_mix"
    by code_simp
  have c: "parse_components decimal 6 one_small_table 0
             = Inr ([5, 0.4, 10], [''A1'', ''A2'', ''A6''])"
    by code_simp
  from rescaling_preserves_total [OF h] c h show ?thesis
    by (simp add: one_small_mix_def)
qed

section \<open>The parser\<close>

lemma dest_well_at_empty_row:
  "dest_row_index < length csv_data \<Longrightarrow> csv_data ! dest_row_index = []
   \<Longrightarrow> dest_well_at csv_data dest_row_index = Inr ''A1''"
  by (simp add: dest_well_at_def getitem_def)

text \<open>
  Claim C10: when row \<open>15 m\<close> of the table is present and has no cells, reading mix \<open>m\<close>
  fails only if reading its components fails, and otherwise yields the mix with the
  destination well \<open>A1\<close>.
\<close>

theorem empty_dest_row_gives_A1:
  assumes "15 * m < length csv_data" and "csv_data ! (15 * m) = []"
  shows "parse_mix float_of maxp csv_data m =
           bindE (parse_components float_of maxp csv_data m) (\<lambda>(mix_volumes, wells).
             Inr \<lparr>volumes = fst (rescale mix_volumes), scale_factors = snd (rescale mix_volumes),
                  source_wells = wells, dest_well = ''A1''\<rparr>)"
proof -
  have "dest_well_at csv_data (0 + m * 15) = Inr ''A1''"
    using assms by (simp add: dest_well_at_empty_row mult.commute)
  then show ?thesis
    by (simp add: parse_mix_def split_def)
qed

theorem empty_dest_row_gives_A1_witness:
  "15 * 0 < length empty_dest_row_table \<and> empty_dest_row_table ! (15 * 0) = []
   \<and> parse_mix decimal 6 empty_dest_row_table 0 = Inr one_small_mix
   \<and> dest_well one_small_mix = ''A1''
   \<and> snd (run decimal one_of_none empty_dest_row_table) = Completed
   \<and> Dispense P50 (77 / 5) (Bottom (PcrPlate, ''A1'') 1)
         \<in> set (events (fst (run decimal one_of_none empty_dest_row_table)))"
proof -
  have a: "15 * 0 < length empty_dest_row_table" by code_simp
  have b: "empty_dest_row_table ! (15 * 0) = []" by code_simp
  have c: "parse_components decimal 6 empty_dest_row_table 0
             = Inr ([5, 0.4, 10], [''A1'', ''A2'', ''A6''])"
    by code_simp
  have r: "rescale [5, 2 / 5, 10] = ([10, 4 / 5, 20], [2])" by code_simp
  have d: "snd (run decimal one_of_none empty_dest_row_table) = Completed
           \<and> Dispense P50 (77 / 5) (Bottom (PcrPlate, ''A1'') 1)
                 \<in> set (events (fst (run decimal one_of_none empty_dest_row_table)))"
    by code_simp
  from empty_dest_row_gives_A1 [OF a b, of decimal 6] a b
  have "15 * 0 < length empty_dest_row_table \<and> empty_dest_row_table ! (15 * 0) = []
        \<and> parse_mix decimal 6 empty_dest_row_table 0 = Inr one_small_mix
        \<and> dest_well one_small_mix = ''A1''"
    by (simp add: c r one_small_mix_def)
  with d show ?thesis by blast
qed

section \<open>NaCl dispense groups\<close>

lemma pack_concat:
  "pack max_vol buffer dest_list (grp, current_sum, grouped) = (grp', current_sum', grouped')
   \<Longrightarrow> concat grouped' @ grp' = concat grouped @ grp @ dest_list"
proof (induction dest_list arbitrary: grp current_sum grouped)
  case Nil
  then show ?case by simp
next
  case (Cons x dest_list)
  obtain dest vol where x: "x = (dest, vol)" by (cases x)
  show ?case
  proof (cases "current_sum + vol \<le> max_vol - buffer")
    case True
    with Cons.prems x
    have "pack max_vol buffer dest_list (grp @ [(dest, vol)], current_sum + vol, grouped)
            = (grp', current_sum', grouped')" by simp
    from Cons.IH [OF this] show ?thesis by (simp add: x)
  next
    case False
    with Cons.prems x
    have "pack max_vol buffer dest_list ([(dest, vol)], vol, grouped @ [grp])
            = (grp', current_sum', grouped')" by simp
    from Cons.IH [OF this] show ?thesis by (simp add: x)
  qed
qed

lemma pack_last_group:
  "pack max_vol buffer dest_list (grp, current_sum, grouped) = (grp', current_sum', grouped')
   \<Longrightarrow> grp \<noteq> [] \<or> dest_list \<noteq> [] \<Longrightarrow> grp' \<noteq> []"
proof (induction dest_list arbitrary: grp current_sum grouped)
  case Nil
  then show ?case by simp
next
  case (Cons x dest_list)
  obtain dest vol where x: "x = (dest, vol)" by (cases x)
  show ?case
  proof (cases "current_sum + vol \<le> max_vol - buffer")
    case True
    with Cons.prems x
    have "pack max_vol buffer dest_list (grp @ [(dest, vol)], current_sum + vol, grouped)
            = (grp', current_sum', grouped')" by simp
    from Cons.IH [OF this] show ?thesis by simp
  next
    case False
    with Cons.prems x
    have "pack max_vol buffer dest_list ([(dest, vol)], vol, grouped @ [grp])
            = (grp', current_sum', grouped')" by simp
    from Cons.IH [OF this] show ?thesis by simp
  qed
qed

lemma dispense_groups_concat: "concat (dispense_groups max_vol buffer dest_list) = dest_list"
proof -
  obtain grp cs grouped where p: "pack max_vol buffer dest_list ([], 0, []) = (grp, cs, grouped)"
    by (cases "pack max_vol buffer dest_list ([], 0, [])") auto
  from pack_concat [OF p] have c: "concat grouped @ grp = dest_list" by simp
  show ?thesis
  proof (cases "grp = []")
    case True
    with pack_last_group [OF p] have "dest_list = []" by auto
    with True p show ?thesis by (simp add: dispense_groups_def)
  next
    case False
    with p c show ?thesis by (simp add: dispense_groups_def)
  qed
qed

lemma pack_fits:
  "pack max_vol buffer dest_list (grp, current_sum, grouped) = (grp', current_sum', grouped')
   \<Longrightarrow> current_sum = sum_list (map snd grp) \<Longrightarrow> fits (max_vol - buffer) grp
   \<Longrightarrow> \<forall>g \<in> set grouped. fits (max_vol - buffer) g
   \<Longrightarrow> fits (max_vol - buffer) grp' \<and> (\<forall>g \<in> set grouped'. fits (max_vol - buffer) g)"
proof (induction dest_list arbitrary: grp current_sum grouped)
  case Nil
  then show ?case by simp
next
  case (Cons x dest_list)
  obtain dest vol where x: "x = (dest, vol)" by (cases x)
  show ?case
  proof (cases "current_sum + vol \<le> max_vol - buffer")
    case True
    with Cons.prems(1) x
    have p: "pack max_vol buffer dest_list (grp @ [(dest, vol)], current_sum + vol, grouped)
            = (grp', current_sum', grouped')" by simp
    have s: "current_sum + vol = sum_list (map snd (grp @ [(dest, vol)]))"
      using Cons.prems(2) by simp
    have f: "fits (max_vol - buffer) (grp @ [(dest, vol)])"
      using True Cons.prems(2) by (simp add: fits_def)
    from Cons.IH [OF p s f Cons.prems(4)] show ?thesis .
  next
    case False
    with Cons.prems(1) x
    have p: "pack max_vol buffer dest_list ([(dest, vol)], vol, grouped @ [grp])
            = (grp', current_sum', grouped')" by simp
    have s: "vol = sum_list (map snd [(dest, vol)])" by simp
    have f: "fits (max_vol - buffer) [(dest, vol)]"
      by (auto simp: fits_def)
    have g: "\<forall>g \<in> set (grouped @ [grp]). fits (max_vol - buffer) g"
      using Cons.prems(3,4) by auto
    from Cons.IH [OF p s f g] show ?thesis .
  qed
qed

lemma dispense_groups_fit:
  assumes "0 \<le> max_vol - buffer"
  shows "\<forall>g \<in> set (dispense_groups max_vol buffer dest_list). fits (max_vol - buffer) g"
proof -
  obtain grp cs grouped where p: "pack max_vol buffer dest_list ([], 0, []) = (grp, cs, grouped)"
    by (cases "pack max_vol buffer dest_list ([], 0, [])") auto
  have "fits (max_vol - buffer) grp \<and> (\<forall>g \<in> set grouped. fits (max_vol - buffer) g)"
    using assms by (intro pack_fits [OF p]) (simp_all add: fits_def)
  with p show ?thesis by (auto simp: dispense_groups_def)
qed

lemma sum_list_concat_groups:
  fixes gs :: "('d \<times> rat) list list"
  shows "sum_list (map (\<lambda>g. sum_list (map snd g)) gs) = sum_list (map snd (concat gs))"
  by (induction gs) simp_all

lemma nacl_limit_nonneg: "0 \<le> nacl_max_vol total_vol 2 - 2"
  by (simp add: nacl_max_vol_def)

text \<open>
  Claim C4, as stated, fails in its second part: a mix with 250 \<open>\<mu>\<close>L of NaCl gives its
  source one destination of 250 \<open>\<mu>\<close>L, the 200 \<open>\<mu>\<close>L pipette is selected, and the
  destination forms a group of its own whose total exceeds 198 (after an empty group).
\<close>

theorem single_destination_over_capacity:
  "parse_mixes decimal 6 large_nacl_table [0 ..< 1] = Inr [large_nacl_mix]
   \<and> plan_nacl Map.empty [large_nacl_mix]
        = Inr \<lparr>nacl_totals = [(''A6'', 250)],
               nacl_dests = [(''A6'', [((PcrPlate, ''A1''), 250)])]\<rparr>
   \<and> dispense_groups (nacl_max_vol 250 2) 2 [((PcrPlate, ''A1''), 250)]
        = [[], [((PcrPlate, ''A1''), 250)]]
   \<and> nacl_max_vol 250 2 - 2 < 250"
  by code_simp

text \<open>
  Claim C4, amended: for every NaCl source, the groups taken in order are exactly the
  destination list (every destination is in exactly one group, and the group totals add
  up to the requested total); every group's total is at most the selected capacity
  minus 2, unless the group is a single destination whose volume alone exceeds that
  limit; so when no destination volume exceeds the limit, no group does.
\<close>

theorem nacl_groups:
  "concat (dispense_groups (nacl_max_vol total_vol 2) 2 dest_list) = dest_list
   \<and> sum_list (map (\<lambda>g. sum_list (map snd g)) (dispense_groups (nacl_max_vol total_vol 2) 2 dest_list))
       = sum_list (map snd dest_list)
   \<and> (\<forall>g \<in> set (dispense_groups (nacl_max_vol total_vol 2) 2 dest_list).
         sum_list (map snd g) \<le> nacl_max_vol total_vol 2 - 2
         \<or> (length g = 1 \<and> nacl_max_vol total_vol 2 - 2 < snd (hd g)))
   \<and> ((\<forall>v \<in> set (map snd dest_list). v \<le> nacl_max_vol total_vol 2 - 2) \<longrightarrow>
        (\<forall>g \<in> set (dispense_groups (nacl_max_vol total_vol 2) 2 dest_list).
           sum_list (map snd g) \<le> nacl_max_vol total_vol 2 - 2))"
proof -
  let ?gs = "dispense_groups (nacl_max_vol total_vol 2) 2 dest_list"
  let ?lim = "nacl_max_vol total_vol 2 - 2"
  have c: "concat ?gs = dest_list" by (rule dispense_groups_concat)
  have s: "sum_list (map (\<lambda>g. sum_list (map snd g)) ?gs) = sum_list (map snd dest_list)"
    by (simp add: sum_list_concat_groups c)
  have f: "\<forall>g \<in> set ?gs. fits ?lim g"
    using nacl_limit_nonneg by (rule dispense_groups_fit)
  have small: "\<forall>g \<in> set ?gs. sum_list (map snd g) \<le> ?lim"
    if all: "\<forall>v \<in> set (map snd dest_list). v \<le> ?lim"
  proof
    fix g assume g: "g \<in> set ?gs"
    with f have "fits ?lim g" by blast
    moreover have "snd (hd g) \<le> ?lim" if "length g = 1"
    proof -
      from that have "g = [hd g]" by (cases g) simp_all
      then have "hd g \<in> set g" by (metis list.set_intros(1))
      with g have "hd g \<in> set (concat ?gs)" by auto
      with c all show ?thesis by auto
    qed
    ultimately show "sum_list (map snd g) \<le> ?lim" by (auto simp: fits_def)
  qed
  from c s f small show ?thesis by (auto simp: fits_def)
qed

theorem nacl_groups_witness:
  "nacl_max_vol 30 2 - 2 = 48
   \<and> dispense_groups (nacl_max_vol 30 2) 2
        [((PcrPlate, ''A1''), 10), ((PcrPlate, ''A2''), 10), ((PcrPlate, ''A3''), 10)]
      = [[((PcrPlate, ''A1''), 10), ((PcrPlate, ''A2''), 10), ((PcrPlate, ''A3''), 10)]]
   \<and> sum_list (map (\<lambda>g. sum_list (map snd g))
        (dispense_groups (nacl_max_vol 30 2) 2
           [((PcrPlate, ''A1''), 10), ((PcrPlate, ''A2''), 10), ((PcrPlate, ''A3''), 10)])) = 30"
proof -
  have l: "nacl_max_vol 30 2 - 2 = 48" by (simp add: nacl_max_vol_def)
  have g: "dispense_groups (nacl_max_vol 30 2) 2
        [((PcrPlate, ''A1''), 10), ((PcrPlate, ''A2''), 10), ((PcrPlate, ''A3''), 10)]
      = [[((PcrPlate, ''A1''), 10), ((PcrPlate, ''A2''), 10), ((PcrPlate, ''A3''), 10)]]"
    by code_simp
  from nacl_groups [of 30 "[((PcrPlate, ''A1''), 10), ((PcrPlate, ''A2''), 10), ((PcrPlate, ''A3''), 10)]"]
  have "sum_list (map (\<lambda>g. sum_list (map snd g))
        (dispense_groups (nacl_max_vol 30 2) 2
           [((PcrPlate, ''A1''), 10), ((PcrPlate, ''A2''), 10), ((PcrPlate, ''A3''), 10)])) = 30"
    by simp
  with l g show ?thesis by simp
qed

section \<open>Intermediate vessels\<close>




lemma assign_wells_pools_valid:
  assumes "assign_wells vs md = Inr (vs', stop)"
    and "set (intermediate_small_pool vs) \<union> set (intermediate_final_pool vs)
           \<union> set (intermediate_pool vs) \<subseteq> set (wells_of PlasmidPlate)"
  shows "set (intermediate_small_pool vs') \<union> set (intermediate_final_pool vs')
           \<union> set (intermediate_pool vs') \<subseteq> set (wells_of PlasmidPlate)"
proof -
  from assms(1) have
    "set (intermediate_small_pool vs') \<subseteq> set (intermediate_small_pool vs)
     \<and> set (intermediate_final_pool vs') \<subseteq> set (intermediate_final_pool vs)
     \<and> set (intermediate_pool vs') \<subseteq> set (intermediate_pool vs)"
    by (auto simp: assign_wells_def bindE_eq_Inr Let_def split: if_splits dest: list.set_sel(2))
  with assms(2) show ?thesis by blast
qed




text \<open>
  Claim C3 does not hold of the script: the branch for exactly one small volume pops
  \<open>intermediate_pool\<close>, a separate list that starts with the small pool's vessels, while
  the branch for two or more pops the small and final pools. A mix with one small volume
  followed by a mix with two gives tube C1 to both, as final vessel of the first and as
  small vessel of the second.
\<close>

theorem one_stage_and_two_stage_share_C1:
  "parse_mixes decimal 6 one_then_two_table [0 ..< 2] = Inr [one_small_mix, two_small_mix ''A2'']
   \<and> allocation_for ''A1'' (assign_all initial_vessels [one_small_mix, two_small_mix ''A2''])
        = Inr (False, None, Some ''C1'')
   \<and> allocation_for ''A2'' (assign_all initial_vessels [one_small_mix, two_small_mix ''A2''])
        = Inr (False, Some ''C1'', Some ''D1'')"
  by code_simp

text \<open>
  Claim C2 does not hold of the script: line 345 looks for small volumes among the
  rescaled volumes, where the only small volume of a mix has become 0.8. The mix of 5
  and 0.4 \<open>\<mu>\<close>L with 10 \<open>\<mu>\<close>L of NaCl has one small volume and is assigned the final
  vessel C1, yet its NaCl, 20 \<open>\<mu>\<close>L after rescaling, is planned for well A1 of the
  destination plate.
\<close>

theorem nacl_bypasses_final_vessel:
  "parse_mixes decimal 6 one_small_table [0 ..< 1] = Inr [one_small_mix]
   \<and> small_volumes_count one_small_mix = Inr 1
   \<and> allocation_for ''A1'' (assign_all initial_vessels [one_small_mix])
        = Inr (False, None, Some ''C1'')
   \<and> planned_nacl [one_small_mix]
        = Inr \<lparr>nacl_totals = [(''A6'', 20)],
               nacl_dests = [(''A6'', [((PcrPlate, ''A1''), 20)])]\<rparr>"
  by code_simp

section \<open>Steps\<close>

lemma ok_simp [simp]: "ok st = (st, None)"
  by (simp add: ok_def)

lemma raise_simp [simp]: "raise e st = (st, Some e)"
  by (simp add: raise_def)

lemma need_Inl [simp]: "need (Inl e) f st = (st, Some e)"
  by (simp add: need_def)

lemma need_Inr [simp]: "need (Inr x) f st = f x st"
  by (simp add: need_def)

lemma emit_simp [simp]: "emit e st = (st\<lparr>events := events st @ [e]\<rparr>, None)"
  by (simp add: emit_def)

lemma finish_simps [simp]:
  "finish (st, None) = (st, Completed)" "finish (st, Some e) = (st, Raised e)"
  by (simp_all add: finish_def)

section \<open>The aliquoting protocol\<close>

lemma wells_in_valid:
  "wells_in lw names = Inr ws \<Longrightarrow> \<forall>name \<in> set names. name \<in> set (wells_of lw)"
proof (induction names arbitrary: ws)
  case Nil
  then show ?case by simp
next
  case (Cons name names)
  then show ?case
    by (auto simp: bindE_eq_Inr well_def split: if_splits)
qed

lemma length_filter_take:
  "length (filter P (take n xs)) \<le> length (filter P xs)"
proof -
  have "filter P xs = filter P (take n xs) @ filter P (drop n xs)"
    by (metis append_take_drop_id filter_append)
  then show ?thesis by simp
qed

lemma wells_in_needs_enough:
  assumes "wells_in lw (take n names) = Inr ws" and "n \<le> length names"
  shows "n \<le> length (filter (\<lambda>name. name \<in> set (wells_of lw)) names)"
proof -
  from wells_in_valid [OF assms(1)]
  have "filter (\<lambda>name. name \<in> set (wells_of lw)) (take n names) = take n names"
    by (simp add: filter_id_conv)
  then have "length (filter (\<lambda>name. name \<in> set (wells_of lw)) (take n names)) = n"
    using assms(2) by simp
  with length_filter_take [of "\<lambda>name. name \<in> set (wells_of lw)" n names]
  show ?thesis by simp
qed

lemma destination_wells_fail:
  assumes "available_wells p < mix_count p"
  shows "\<exists>st' e. with_destination_wells p body st = (st', Some e)
           \<and> (events st' = events st \<or> (\<exists>msg. events st' = events st @ [Pause msg]))"
proof (cases "start_of (mix_position p)")
  case (Inl e)
  then show ?thesis by (simp add: with_destination_wells_def)
next
  case (Inr rc)
  obtain row_index start_col where rc: "rc = (row_index, start_col)" by (cases rc)
  let ?ws = "all_wells row_index start_col (mix_rows_count p) (mix_columns_per_row p)"
  have avail: "length (filter (\<lambda>name. name \<in> set (wells_of PcrPlate)) ?ws) < mix_count p"
    using assms Inr rc by (simp add: available_wells_def)
  show ?thesis
  proof (cases "row_index + mix_rows_count p > length ''ABCDEFGH''")
    case True
    with Inr rc show ?thesis
      by (simp add: with_destination_wells_def seq_def)
  next
    case rows_fit: False
    show ?thesis
    proof (cases "length ?ws < mix_count p")
      case True
      with Inr rc rows_fit show ?thesis
        by (simp add: with_destination_wells_def seq_def Let_def)
    next
      case False
      then have enough: "mix_count p \<le> length ?ws" by simp
      have "\<exists>e. wells_in PcrPlate (take (mix_count p) ?ws) = Inl e"
      proof (cases "wells_in PcrPlate (take (mix_count p) ?ws)")
        case (Inl e)
        then show ?thesis by blast
      next
        case (Inr ws)
        from wells_in_needs_enough [OF Inr enough] avail show ?thesis by simp
      qed
      then obtain e where "wells_in PcrPlate (take (mix_count p) ?ws) = Inl e" ..
      with Inr rc rows_fit False show ?thesis
        by (simp add: with_destination_wells_def Let_def)
    qed
  qed
qed

lemma all_wells_length:
  "length (all_wells row_index start_col rows_count columns_per_row) \<le> rows_count * columns_per_row"
proof -
  have "length (concat (map (\<lambda>r. map (\<lambda>c. r # show_nat c) [start_col ..< start_col + columns_per_row]) rs))
          = length rs * columns_per_row" for rs :: string
    by (induction rs) simp_all
  moreover have "length (take rows_count (drop row_index ''ABCDEFGH'')) \<le> rows_count"
    by simp
  ultimately show ?thesis
    unfolding all_wells_def Let_def by (metis mult_le_mono1)
qed

lemma available_wells_le:
  "available_wells p \<le> mix_rows_count p * mix_columns_per_row p"
proof (cases "start_of (mix_position p)")
  case (Inl e)
  then show ?thesis by (simp add: available_wells_def)
next
  case (Inr rc)
  obtain row_index start_col where rc: "rc = (row_index, start_col)" by (cases rc)
  have "available_wells p \<le> length (all_wells row_index start_col (mix_rows_count p) (mix_columns_per_row p))"
    using Inr rc by (simp add: available_wells_def)
  with all_wells_length [of row_index start_col "mix_rows_count p" "mix_columns_per_row p"]
  show ?thesis by linarith
qed

text \<open>
  Claim C9: when \<open>mix_count\<close> exceeds the number of destination wells that the starting
  position and the geometry determine (the wells of the geometry that exist on the plate
  or, which is at least as many, rows times columns), the run of the aliquoting protocol
  ends in an exception and its trace holds no tip pickup.
\<close>

theorem too_many_mixes_no_tip:
  assumes "available_wells p < mix_count p
           \<or> mix_rows_count p * mix_columns_per_row p < mix_count p"
  shows "(\<exists>e. snd (run_aliquoting p) = Raised e)
         \<and> filter is_pick_up (events (fst (run_aliquoting p))) = []"
proof -
  have short: "available_wells p < mix_count p"
    using assms available_wells_le [of p] by linarith
  let ?st0 = initial_aliquot_state
  have ev0: "events ?st0 = []" by (simp add: initial_aliquot_state_def)
  show ?thesis
  proof (cases "find_tip_index (tips_by_row Tiprack200) (starting_tip_200 p)")
    case (Inl e)
    then show ?thesis by (simp add: run_aliquoting_def ev0)
  next
    case i200: (Inr i200)
    show ?thesis
    proof (cases "find_tip_index (tips_by_row Tiprack1000) (starting_tip_1000 p)")
      case (Inl e)
      with i200 show ?thesis by (simp add: run_aliquoting_def ev0)
    next
      case i1000: (Inr i1000)
      define st where "st = ?st0\<lparr>tips200_by_row := drop i200 (tips200_by_row ?st0),
                                 tips1000_by_row := drop i1000 (tips1000_by_row ?st0)\<rparr>"
      have ev: "events st = []" by (simp add: st_def ev0)
      show ?thesis
      proof (cases "well ReagentPlate (reagent_eppendorf p)")
        case (Inl e)
        with i200 i1000 show ?thesis
          by (simp add: run_aliquoting_def seq_def ev0)
      next
        case (Inr source)
        from destination_wells_fail [OF short, of _ st] ev
        have "\<And>body. \<exists>st' e. with_destination_wells p body st = (st', Some e)
                 \<and> filter is_pick_up (events st') = []"
          by (metis append_Nil filter.simps(1) filter.simps(2) is_pick_up.simps(12))
        then obtain st' e where
          "with_destination_wells p (\<lambda>dests.
                 steps
                   [emit CloseLatch,
                    (\<lambda>st. need (getitem (tips1000_by_row st) (counter_1000 st)) (\<lambda>tip.
                             steps [emit (PickUpTip P1000 tip),
                                    (\<lambda>st. (st\<lparr>counter_1000 := counter_1000 st + 1\<rparr>, None))]) st),
                    distribute p source dests 0,
                    emit (DropTip P1000),
                    emit (Delay (delay p)),
                    foreach (aliquot_mix p) (zip [0 ..< length dests] dests),
                    emit OpenLatch]) st = (st', Some e)"
          and "filter is_pick_up (events st') = []"
          by blast
        with i200 i1000 Inr show ?thesis
          by (simp add: run_aliquoting_def seq_def st_def)
      qed
    qed
  qed
qed

theorem too_many_mixes_no_tip_witness:
  "available_wells thirteen_mixes < mix_count thirteen_mixes
   \<and> snd (run_aliquoting thirteen_mixes)
       = Raised (RuntimeError ''Not enough wells assigned for mixes.'')
   \<and> events (fst (run_aliquoting thirteen_mixes))
       = [Pause ''Error: Only 12 wells available for mix placement.'']
   \<and> filter is_pick_up (events (fst (run_aliquoting thirteen_mixes))) = []"
proof -
  have a: "available_wells thirteen_mixes < mix_count thirteen_mixes"
    by code_simp
  have r: "snd (run_aliquoting thirteen_mixes)
             = Raised (RuntimeError ''Not enough wells assigned for mixes.'')"
    by code_simp
  have e: "events (fst (run_aliquoting thirteen_mixes))
             = [Pause ''Error: Only 12 wells available for mix placement.'']"
    by code_simp
  from too_many_mixes_no_tip [of thirteen_mixes] a r e
  show ?thesis by blast
qed

section \<open>Missing rows\<close>

lemma parse_mix_missing_volume_row:
  "length csv_data \<le> 12 + 15 * m \<Longrightarrow> parse_mix float_of maxp csv_data m = Inl list_index_out_of_range"
  by (simp add: parse_mix_def parse_components_def getitem_def Let_def mult.commute)

lemma parse_mixes_append:
  "parse_mixes float_of maxp csv_data (ms @ ns) =
     bindE (parse_mixes float_of maxp csv_data ms) (\<lambda>xs.
     bindE (parse_mixes float_of maxp csv_data ns) (\<lambda>ys. Inr (xs @ ys)))"
proof (induction ms)
  case Nil
  show ?case by (cases "parse_mixes float_of maxp csv_data ns") simp_all
next
  case (Cons m ms)
  show ?case
    by (cases "parse_mix float_of maxp csv_data m";
        cases "parse_mixes float_of maxp csv_data ms";
        cases "parse_mixes float_of maxp csv_data ns") (simp_all add: Cons.IH)
qed

lemma parse_mixes_all_ok:
  "\<forall>k \<in> set ms. \<exists>md. parse_mix float_of maxp csv_data k = Inr md
   \<Longrightarrow> \<exists>mds. parse_mixes float_of maxp csv_data ms = Inr mds"
  by (induction ms) auto

lemma parse_mixes_first_failure:
  assumes "m < n" and "parse_mix float_of maxp csv_data m = Inl e"
    and "\<forall>k < m. \<exists>md. parse_mix float_of maxp csv_data k = Inr md"
  shows "parse_mixes float_of maxp csv_data [0 ..< n] = Inl e"
proof -
  have split: "[0 ..< n] = [0 ..< m] @ (m # [Suc m ..< n])"
    using assms(1) by (metis le_add1 less_imp_add_positive upt_add_eq_append upt_conv_Cons plus_nat.add_0 less_or_eq_imp_le)
  from assms(3) obtain mds where "parse_mixes float_of maxp csv_data [0 ..< m] = Inr mds"
    using parse_mixes_all_ok [of "[0 ..< m]" float_of maxp csv_data] by auto
  then show ?thesis
    using assms(2) by (simp add: split parse_mixes_append)
qed

lemma parse_mixes_nth:
  "parse_mixes float_of maxp csv_data ms = Inr mds
   \<Longrightarrow> length mds = length ms
       \<and> (\<forall>i < length ms. parse_mix float_of maxp csv_data (ms ! i) = Inr (mds ! i))"
proof (induction ms arbitrary: mds)
  case Nil
  then show ?case by simp
next
  case (Cons m ms)
  from Cons.prems obtain md rest where
    md: "parse_mix float_of maxp csv_data m = Inr md"
    and rest: "parse_mixes float_of maxp csv_data ms = Inr rest"
    and mds: "mds = md # rest"
    by (auto simp: bindE_eq_Inr)
  from Cons.IH [OF rest] md mds show ?case
    by (auto simp: nth_Cons split: nat.splits)
qed

lemma parse_cols_missing_source_row:
  "length csv_data \<le> volume_row_index + 1
   \<Longrightarrow> parse_cols float_of csv_data volume_row_index is = Inr (vs, ws) \<Longrightarrow> vs = []"
proof (induction "is" arbitrary: vs ws)
  case Nil
  then show ?case by simp
next
  case (Cons i "is")
  from Cons.prems(2) obtain r where r: "parse_cell float_of csv_data volume_row_index i = Inr r"
    by (auto simp: bindE_eq_Inr)
  have "r = None"
  proof (cases r)
    case None
    then show ?thesis .
  next
    case (Some a)
    with r Cons.prems(1) show ?thesis
      by (auto simp: parse_cell_def bindE_eq_Inr getitem_def Let_def
               split: if_splits option.splits)
  qed
  with r Cons.prems(2) have "parse_cols float_of csv_data volume_row_index is = Inr (vs, ws)"
    by simp
  from Cons.IH [OF Cons.prems(1) this] show ?case .
qed

lemma parse_mix_missing_source_row:
  assumes "length csv_data \<le> 13 + 15 * m" and "parse_mix float_of maxp csv_data m = Inr md"
  shows "volumes md = []"
proof -
  from assms(2) obtain vs ws d where
    pc: "parse_components float_of maxp csv_data m = Inr (vs, ws)"
    and md: "md = \<lparr>volumes = fst (rescale vs), scale_factors = snd (rescale vs),
                    source_wells = ws, dest_well = d\<rparr>"
    by (auto simp: parse_mix_def bindE_eq_Inr)
  from pc obtain cols where
    "parse_cols float_of csv_data (12 + m * 15) cols = Inr (vs, ws)"
    by (auto simp: parse_components_def Let_def bindE_eq_Inr)
  moreover have "length csv_data \<le> (12 + m * 15) + 1" using assms(1) by simp
  ultimately have "vs = []" by (rule parse_cols_missing_source_row [rotated])
  then show ?thesis by (simp add: md rescale_def)
qed

lemma plan_all_empty_mix:
  "md \<in> set mds \<Longrightarrow> volumes md = []
   \<Longrightarrow> \<exists>e. plan_all has_small assigned_final mds plan = Inl e"
proof (induction mds arbitrary: plan)
  case Nil
  then show ?case by simp
next
  case (Cons x mds)
  show ?case
  proof (cases "plan_mix has_small assigned_final x plan")
    case (Inl e)
    then show ?thesis by simp
  next
    case (Inr plan')
    have "x \<noteq> md"
    proof
      assume "x = md"
      with Cons.prems(2) have "plan_mix has_small assigned_final x plan = Inl list_index_out_of_range"
        by (simp add: plan_mix_def getlast_def)
      with Inr show False by simp
    qed
    with Cons.prems have "md \<in> set mds" by simp
    from Cons.IH [OF this Cons.prems(2)] Inr show ?thesis by simp
  qed
qed

lemma execute_empty_mix:
  assumes "md \<in> set all_mix_data" and "volumes md = []"
  shows "snd (execute p plasmid_well_map all_mix_data st) \<noteq> Completed
         \<and> snd (execute p plasmid_well_map all_mix_data st) \<noteq> Returned
         \<and> (\<exists>tail. events (fst (execute p plasmid_well_map all_mix_data st)) = events st @ tail
                    \<and> filter tip_or_liquid tail = [])"
proof (cases "assign_all initial_vessels all_mix_data")
  case (Inl e)
  then show ?thesis by (simp add: execute_def)
next
  case (Inr r)
  obtain vs stop where r: "r = (vs, stop)" by (cases r)
  from plan_all_empty_mix [OF assms] obtain e where
    "plan_nacl (assigned_final_wells vs) all_mix_data = Inl e"
    unfolding plan_nacl_def by blast
  with Inr r show ?thesis
    by (cases stop) (simp_all add: execute_def seq_def tip_or_liquid_def)
qed

lemma length_clean_cells [simp]: "length (clean_cells raw_csv) = length raw_csv"
  by (simp add: clean_cells_def)

lemma run_cases:
  obtains (raised) st e where "run float_of p raw_csv = (st, Raised e)" and "events st = []"
  | (parse_error) st e where
      "parse_mixes float_of (max_plasmid_count p) (clean_cells raw_csv) [0 ..< mix_count p] = Inl e"
      and "run float_of p raw_csv = (st, Returned)"
      and "events st = [Pause (''Error parsing CSV: '' @ str_of_error e)]"
  | (parsed) st plasmid_well_map all_mix_data where
      "parse_mixes float_of (max_plasmid_count p) (clean_cells raw_csv) [0 ..< mix_count p]
         = Inr all_mix_data"
      and "events st = []"
      and "run float_of p raw_csv = execute p plasmid_well_map all_mix_data st"
proof -
  let ?st0 = initial_dna_state
  have ev0: "events ?st0 = []" by (simp add: initial_dna_state_def)
  show ?thesis
  proof (cases "find_tip_index (tips50_by_row ?st0) (starting_tip_50 p)")
    case (Inl e)
    then have "run float_of p raw_csv = (?st0, Raised e)"
      by (simp add: run_def Let_def)
    then show ?thesis using ev0 by (rule raised)
  next
    case i50: (Inr i50)
    show ?thesis
    proof (cases "find_tip_index (tips200_by_row ?st0) (starting_tip_200 p)")
      case (Inl e)
      with i50 have "run float_of p raw_csv = (?st0, Raised e)"
        by (simp add: run_def Let_def)
      then show ?thesis using ev0 by (rule raised)
    next
      case i200: (Inr i200)
      define st where "st = ?st0\<lparr>tips50_by_row := drop i50 (tips50_by_row ?st0),
                                 tips200_by_row := drop i200 (tips200_by_row ?st0)\<rparr>"
      have ev: "events st = []" by (simp add: st_def ev0)
      show ?thesis
      proof (cases "liquid_registry (clean_cells raw_csv) (mix_count p)")
        case (Inl e)
        with i50 i200 have "run float_of p raw_csv = (st, Raised e)"
          by (simp add: run_def Let_def st_def)
        then show ?thesis using ev by (rule raised)
      next
        case reg: (Inr plasmid_well_map)
        show ?thesis
        proof (cases "parse_mixes float_of (max_plasmid_count p) (clean_cells raw_csv)
                        [0 ..< mix_count p]")
          case (Inl e)
          with i50 i200 reg have
            "run float_of p raw_csv =
               (st\<lparr>events := events st @ [Pause (''Error parsing CSV: '' @ str_of_error e)]\<rparr>,
                Returned)"
            by (simp add: run_def Let_def st_def)
          then have "run float_of p raw_csv =
               (st\<lparr>events := [Pause (''Error parsing CSV: '' @ str_of_error e)]\<rparr>, Returned)"
            using ev by simp
          with Inl show ?thesis by (rule parse_error) simp
        next
          case (Inr all_mix_data)
          with i50 i200 reg have
            "run float_of p raw_csv = execute p plasmid_well_map all_mix_data st"
            by (simp add: run_def Let_def st_def)
          with Inr ev show ?thesis by (rule parsed)
        qed
      qed
    qed
  qed
qed

text \<open>
  Claim C8, as stated, fails in what it says of the message: the pause shows the text of
  the Python exception, which for a missing row is the same whichever mix is missing
  (here the second mix of two, and the only mix of an empty table) and names no mix.
\<close>

theorem parse_error_message_names_no_mix:
  "events (fst (run decimal two_of_one one_small_table))
     = [Pause ''Error parsing CSV: list index out of range'']
   \<and> snd (run decimal two_of_one one_small_table) = Returned
   \<and> events (fst (run decimal one_of_none []))
     = [Pause ''Error parsing CSV: list index out of range'']
   \<and> snd (run decimal one_of_none []) = Returned"
  by code_simp

text \<open>
  Claim C8, amended: when the source-well row of some mix below \<open>mix_count\<close> is absent
  (the table has at most \<open>13 + 15 m\<close> rows), the run does not complete and its trace
  holds no tip pickup, aspirate or dispense for any mix; if it ends by the parser's
  return, the trace is the single pause \<open>Error parsing CSV:\<close> followed by the text of the
  exception. When the volume row is absent as well (at most \<open>12 + 15 m\<close> rows), the trace
  holds no physical action at all, and if the mixes before \<open>m\<close> parse, the run that
  returns has paused with \<open>Error parsing CSV: list index out of range\<close>.
\<close>

theorem missing_row_aborts_before_transfers:
  assumes "m < mix_count p" and "length raw_csv \<le> 13 + 15 * m"
  shows "filter tip_or_liquid (events (fst (run float_of p raw_csv))) = []
    \<and> snd (run float_of p raw_csv) \<noteq> Completed
    \<and> (snd (run float_of p raw_csv) = Returned \<longrightarrow>
         (\<exists>e. parse_mixes float_of (max_plasmid_count p) (clean_cells raw_csv) [0 ..< mix_count p]
                 = Inl e
              \<and> events (fst (run float_of p raw_csv))
                  = [Pause (''Error parsing CSV: '' @ str_of_error e)]))
    \<and> (length raw_csv \<le> 12 + 15 * m \<longrightarrow>
         filter physical (events (fst (run float_of p raw_csv))) = []
         \<and> ((\<forall>k < m. \<exists>md. parse_mix float_of (max_plasmid_count p) (clean_cells raw_csv) k = Inr md)
              \<longrightarrow> snd (run float_of p raw_csv) = Returned
              \<longrightarrow> events (fst (run float_of p raw_csv))
                    = [Pause ''Error parsing CSV: list index out of range'']))"
proof (cases rule: run_cases [of float_of p raw_csv])
  case (raised st e)
  then show ?thesis by simp
next
  case (parse_error st e)
  have "e = list_index_out_of_range"
    if "length raw_csv \<le> 12 + 15 * m"
      and "\<forall>k < m. \<exists>md. parse_mix float_of (max_plasmid_count p) (clean_cells raw_csv) k = Inr md"
  proof -
    have "parse_mix float_of (max_plasmid_count p) (clean_cells raw_csv) m = Inl list_index_out_of_range"
      using that(1) by (intro parse_mix_missing_volume_row) simp
    from parse_mixes_first_failure [OF assms(1) this that(2)] parse_error(1)
    show ?thesis by simp
  qed
  with parse_error show ?thesis
    by (auto simp: tip_or_liquid_def list_index_out_of_range_def)
next
  case (parsed st plasmid_well_map all_mix_data)
  from parse_mixes_nth [OF parsed(1)] assms(1)
  have len: "length all_mix_data = mix_count p"
    and pm: "parse_mix float_of (max_plasmid_count p) (clean_cells raw_csv) m = Inr (all_mix_data ! m)"
    by simp_all
  have not_short: "\<not> length raw_csv \<le> 12 + 15 * m"
  proof
    assume "length raw_csv \<le> 12 + 15 * m"
    then have "parse_mix float_of (max_plasmid_count p) (clean_cells raw_csv) m = Inl list_index_out_of_range"
      by (intro parse_mix_missing_volume_row) simp
    with pm show False by simp
  qed
  have "volumes (all_mix_data ! m) = []"
    using assms(2) pm by (intro parse_mix_missing_source_row [of "clean_cells raw_csv" m]) simp_all
  moreover have "all_mix_data ! m \<in> set all_mix_data"
    using len assms(1) by simp
  ultimately obtain tail where
    "snd (execute p plasmid_well_map all_mix_data st) \<noteq> Completed"
    "snd (execute p plasmid_well_map all_mix_data st) \<noteq> Returned"
    "events (fst (execute p plasmid_well_map all_mix_data st)) = events st @ tail"
    "filter tip_or_liquid tail = []"
    using execute_empty_mix [of "all_mix_data ! m" all_mix_data p plasmid_well_map st] by blast
  with parsed not_short show ?thesis by simp
qed

theorem missing_row_aborts_before_transfers_witness:
  "1 < mix_count two_of_one \<and> length one_small_table \<le> 12 + 15 * 1
   \<and> parse_mix decimal (max_plasmid_count two_of_one) (clean_cells one_small_table) 0
       = Inr one_small_mix
   \<and> snd (run decimal two_of_one one_small_table) = Returned
   \<and> events (fst (run decimal two_of_one one_small_table))
       = [Pause ''Error parsing CSV: list index out of range'']
   \<and> filter physical (events (fst (run decimal two_of_one one_small_table))) = []"
proof -
  have a: "1 < mix_count two_of_one" by code_simp
  have b: "length one_small_table \<le> 12 + 15 * 1" by code_simp
  have b': "length one_small_table \<le> 13 + 15 * 1" using b by simp
  have c: "parse_mix decimal (max_plasmid_count two_of_one) (clean_cells one_small_table) 0
       = Inr one_small_mix" by code_simp
  have d: "snd (run decimal two_of_one one_small_table) = Returned" by code_simp
  have "\<forall>k < 1. \<exists>md. parse_mix decimal (max_plasmid_count two_of_one)
                        (clean_cells one_small_table) k = Inr md"
    using c by simp
  with missing_row_aborts_before_transfers [OF a b', of decimal] b d
  have "events (fst (run decimal two_of_one one_small_table))
          = [Pause ''Error parsing CSV: list index out of range'']
        \<and> filter physical (events (fst (run decimal two_of_one one_small_table))) = []"
    by blast
  with a b c d show ?thesis by blast
qed

section \<open>Commands once sent stay in the trace\<close>

named_theorems kt

lemma keeps_trace_ok [kt]: "keeps_trace ok"
  by (simp add: keeps_trace_def)

lemma keeps_trace_raise [kt]: "keeps_trace (raise e)"
  by (simp add: keeps_trace_def)

lemma keeps_trace_emit [kt]: "keeps_trace (emit e)"
  by (simp add: keeps_trace_def)

lemma keeps_trace_seq [kt]:
  assumes "keeps_trace f" and "keeps_trace g"
  shows "keeps_trace (seq f g)"
  unfolding keeps_trace_def
proof
  fix st
  obtain st1 r where f: "f st = (st1, r)" by (cases "f st")
  from assms(1) f obtain t1 where t1: "events st1 = events st @ t1"
    by (auto simp: keeps_trace_def dest: spec [of _ st])
  show "\<exists>tail. events (fst (seq f g st)) = events st @ tail"
  proof (cases r)
    case None
    from assms(2) obtain t2 where "events (fst (g st1)) = events st1 @ t2"
      by (auto simp: keeps_trace_def)
    with f None t1 show ?thesis by (simp add: seq_def)
  next
    case (Some e)
    with f t1 show ?thesis by (simp add: seq_def)
  qed
qed

lemma keeps_trace_need [kt]:
  assumes "\<And>x. keeps_trace (f x)"
  shows "keeps_trace (need m f)"
proof (cases m)
  case (Inl e)
  then show ?thesis by (simp add: keeps_trace_def)
next
  case (Inr x)
  with assms [of x] show ?thesis by (simp add: keeps_trace_def)
qed

lemma keeps_trace_steps_Nil [kt]: "keeps_trace (steps [])"
  by (simp add: keeps_trace_def)

lemma keeps_trace_steps_Cons [kt]:
  "keeps_trace f \<Longrightarrow> keeps_trace (steps fs) \<Longrightarrow> keeps_trace (steps (f # fs))"
  by (simp add: keeps_trace_seq)

lemma keeps_trace_foreach [kt]:
  assumes "\<And>x. keeps_trace (f x)"
  shows "keeps_trace (foreach f xs)"
proof (induction xs)
  case Nil
  show ?case by (simp add: keeps_trace_def)
next
  case (Cons x xs)
  with assms [of x] show ?case by (simp add: keeps_trace_seq)
qed

lemma keeps_trace_if [kt]:
  "keeps_trace f \<Longrightarrow> keeps_trace g \<Longrightarrow> keeps_trace (if b then f else g)"
  by simp

lemma keeps_trace_case_prod [kt]:
  "(\<And>a b. keeps_trace (f a b)) \<Longrightarrow> keeps_trace (case x of (a, b) \<Rightarrow> f a b)"
  by (cases x) simp

lemma keeps_trace_let [kt]:
  "keeps_trace (f x) \<Longrightarrow> keeps_trace (let y = x in f y)"
  by simp

lemma keeps_trace_on_state:
  "keeps_trace f \<Longrightarrow> keeps_trace g \<Longrightarrow> keeps_trace (\<lambda>st. if P st then f st else g st)"
  by (simp add: keeps_trace_def)

lemma keeps_trace_swap_rack50 [kt]: "keeps_trace swap_rack50"
  by (simp add: keeps_trace_def swap_rack50_def)

lemma keeps_trace_pop_tip50 [kt]: "keeps_trace pop_tip50"
  by (simp add: keeps_trace_def pop_tip50_def split: list.splits)

lemma keeps_trace_pick_up_50 [kt]: "keeps_trace pick_up_50"
  unfolding pick_up_50_def
  by (intro keeps_trace_seq keeps_trace_on_state kt)

lemma keeps_trace_pick_up_200 [kt]: "keeps_trace pick_up_200"
  by (simp add: keeps_trace_def pick_up_200_def split: list.splits)

lemma keeps_trace_pick_up [kt]: "keeps_trace (pick_up pip)"
  by (cases pip) (simp_all add: kt)

lemma keeps_trace_aspirate [kt]: "keeps_trace (aspirate pip vol lw name pos)"
  unfolding aspirate_def by (intro kt)

lemma keeps_trace_dispense [kt]: "keeps_trace (dispense pip vol lw name pos)"
  unfolding dispense_def by (intro kt)

lemma keeps_trace_blow_out [kt]: "keeps_trace (blow_out pip lw name pos)"
  unfolding blow_out_def by (intro kt)

lemma keeps_trace_mix_in_place [kt]: "keeps_trace (mix_in_place pip reps vol lw name pos)"
  unfolding mix_in_place_def by (intro kt)

lemma keeps_trace_dispatch_group [kt]: "keeps_trace (dispatch_group pip buffer source g)"
  unfolding dispatch_group_def by (intro kt)

lemma keeps_trace_dispatch_source [kt]: "keeps_trace (dispatch_source plan x)"
  unfolding dispatch_source_def Let_def by (intro kt)

lemma keeps_trace_dispatch_nacl [kt]: "keeps_trace (dispatch_nacl plan)"
  unfolding dispatch_nacl_def by (intro kt)

lemma keeps_trace_set_premixed [kt]:
  "keeps_trace (\<lambda>st. (st\<lparr>premixed_sources := X st\<rparr>, None))"
  by (simp add: keeps_trace_def)

lemma keeps_trace_premix_source [kt]: "keeps_trace (premix_source plasmid_well_map do_premix x)"
proof -
  obtain vol src where x: "x = (vol, src)" by (cases x)
  show ?thesis
    unfolding premix_source_def x prod.case
    by (intro keeps_trace_on_state kt)
qed

lemma keeps_trace_stage_small [kt]: "keeps_trace (stage_small w x)"
  unfolding stage_small_def by (intro kt)

lemma keeps_trace_pool_to_final [kt]: "keeps_trace (pool_to_final s f vols)"
  unfolding pool_to_final_def Let_def by (intro kt)

lemma keeps_trace_single_small [kt]: "keeps_trace (single_small f vol src)"
  unfolding single_small_def Let_def by (intro kt)

lemma keeps_trace_transfer_normal [kt]: "keeps_trace (transfer_normal lw target x)"
  unfolding transfer_normal_def Let_def by (intro kt)

lemma keeps_trace_final_transfer [kt]: "keeps_trace (final_transfer_to_pcr f md)"
  unfolding final_transfer_to_pcr_def Let_def by (intro kt)

lemma keeps_trace_transfer_mix [kt]: "keeps_trace (transfer_mix plasmid_well_map do_premix vs md)"
  unfolding transfer_mix_def Let_def by (intro kt)

lemma keeps_trace_transfer_batch [kt]:
  "keeps_trace (transfer_batch plasmid_well_map do_premix vs n all_mix_data batch_start)"
  unfolding transfer_batch_def Let_def by (intro kt)

lemma keeps_trace_transfer_plasmids [kt]:
  "keeps_trace (transfer_plasmids plasmid_well_map do_premix vs n all_mix_data)"
  unfolding transfer_plasmids_def by (intro kt)

section \<open>Exhausted vessel pools\<close>




lemma seq_ok [simp]: "seq f ok = f"
proof
  fix st
  show "seq f ok st = f st"
    by (cases "f st") (auto simp: seq_def split: option.splits)
qed






end
